theory Spec2Isabelle
  imports Main "HOL-Library.Word" "HOL-Library.Sublist"
begin

unbundle bit_operations_syntax

section \<open>TPM-backed key lifecycle of lib/tpm.c\<close>

subsection \<open>Handles, result codes and the chip\<close>

text \<open>
  TSS handles (\<open>TSS_HCONTEXT\<close>, \<open>TSS_HKEY\<close>, \<open>TSS_HPOLICY\<close>, \<open>TSS_HHASH\<close>) and
  \<open>TSS_RESULT\<close> are \<open>UINT32\<close>. The null handle is 0.
\<close>

type_synonym handle = "32 word"
type_synonym byte = "8 word"

text \<open>
  Library result codes are C \<open>int\<close>s. The header gnutls.h is not among the sources; the
  constants carry the published values of that header. The development uses only that
  they are negative and pairwise distinct.
\<close>

definition GNUTLS_E_MEMORY_ERROR :: int where "GNUTLS_E_MEMORY_ERROR = - 25"
definition GNUTLS_E_INSUFFICIENT_CREDENTIALS :: int where "GNUTLS_E_INSUFFICIENT_CREDENTIALS = - 32"
definition GNUTLS_E_PK_SIGN_FAILED :: int where "GNUTLS_E_PK_SIGN_FAILED = - 46"
definition GNUTLS_E_INVALID_REQUEST :: int where "GNUTLS_E_INVALID_REQUEST = - 50"
definition GNUTLS_E_PARSING_ERROR :: int where "GNUTLS_E_PARSING_ERROR = - 302"
definition GNUTLS_E_TPM_ERROR :: int where "GNUTLS_E_TPM_ERROR = - 329"
definition GNUTLS_E_TPM_KEY_PASSWORD_ERROR :: int where "GNUTLS_E_TPM_KEY_PASSWORD_ERROR = - 330"
definition GNUTLS_E_TPM_SRK_PASSWORD_ERROR :: int where "GNUTLS_E_TPM_SRK_PASSWORD_ERROR = - 331"
definition GNUTLS_E_TPM_SESSION_ERROR :: int where "GNUTLS_E_TPM_SESSION_ERROR = - 332"

text \<open>
  Native result codes of the TSS headers (trousers/tss.h, an external library): the
  TPM layer's \<open>TPM_E_AUTHFAIL\<close> and the TSP layer's communication codes.
  \<open>Trspi_Error_Code\<close> keeps the low twelve bits of a result.
\<close>

definition TPM_E_AUTHFAIL :: "32 word" where "TPM_E_AUTHFAIL = 0x1"
definition TSS_E_COMM_FAILURE :: "32 word" where "TSS_E_COMM_FAILURE = 0x011"
definition TSS_E_NO_CONNECTION :: "32 word" where "TSS_E_NO_CONNECTION = 0x102"
definition TSS_E_CONNECTION_FAILED :: "32 word" where "TSS_E_CONNECTION_FAILED = 0x103"
definition TSS_E_CONNECTION_BROKEN :: "32 word" where "TSS_E_CONNECTION_BROKEN = 0x104"

definition Trspi_Error_Code :: "32 word \<Rightarrow> 32 word" where
  "Trspi_Error_Code r = r AND 0xFFF"

text \<open>The fields of \<open>TSS_UUID\<close>; \<open>rgbNode\<close> is an array of six bytes.\<close>

record TSS_UUID =
  ulTimeLow :: "32 word"
  usTimeMid :: "16 word"
  usTimeHigh :: "16 word"
  bClockSeqHigh :: byte
  bClockSeqLow :: byte
  rgbNode :: "byte list"

datatype tss_object_type =
  TSS_OBJECT_TYPE_HASH | TSS_OBJECT_TYPE_POLICY | TSS_OBJECT_TYPE_RSAKEY

datatype tss_secret_mode = TSS_SECRET_MODE_PLAIN | TSS_SECRET_MODE_SHA1

datatype tss_attrib =
  TSS_TSPATTRIB_KEYINFO_RSA_MODULUS | TSS_TSPATTRIB_KEYINFO_RSA_EXPONENT

text \<open>
  The calls this module makes into the TSS library, with the arguments that identify
  the objects they act on.
\<close>

datatype tss_call =
    Tspi_Context_Create
  | Tspi_Context_Connect handle
  | Tspi_Context_LoadKeyByUUID handle TSS_UUID
  | Tspi_Context_LoadKeyByBlob handle handle "byte list"
  | Tspi_GetPolicyObject handle
  | Tspi_Policy_SetSecret handle tss_secret_mode "byte list"
  | Tspi_Policy_AssignToObject handle handle
  | Tspi_Context_CreateObject handle tss_object_type
  | Tspi_Hash_SetHashValue handle "byte list"
  | Tspi_Hash_Sign handle handle
  | Tspi_GetAttribData handle tss_attrib
  | Tspi_Context_FreeMemory handle "byte list"
  | Tspi_Context_CloseObject handle handle
  | Tspi_Context_Close handle

text \<open>
  What a call gives back: the \<open>TSS_RESULT\<close> and the value of its out parameter (a
  handle or a byte buffer). Out parameters are read by the module only after a zero
  result.
\<close>

record tss_ret =
  tss_result :: "32 word"
  out_handle :: handle
  out_data :: "byte list"

text \<open>
  The chip and its daemon are external: a chip is any function from the history of
  calls made so far and the next call to that call's result. The world threaded through
  the module holds that history and the debug log.
\<close>

type_synonym tss = "tss_call list \<Rightarrow> tss_call \<Rightarrow> tss_ret"

record world =
  calls :: "tss_call list"
  logs :: "string list"

definition tss_do :: "tss \<Rightarrow> tss_call \<Rightarrow> world \<Rightarrow> tss_ret \<times> world" where
  "tss_do chip c w = (chip (calls w) c, w\<lparr>calls := calls w @ [c]\<rparr>)"

definition gnutls_debug_log :: "string \<Rightarrow> world \<Rightarrow> world" where
  "gnutls_debug_log msg w = w\<lparr>logs := logs w @ [msg]\<rparr>"

definition world0 :: world where
  "world0 = \<lparr>calls = [], logs = []\<rparr>"

subsection \<open>Error mapper\<close>

definition tss_err_code :: "32 word \<Rightarrow> int" where
  "tss_err_code e =
     (let c = Trspi_Error_Code e in
      if c = TSS_E_COMM_FAILURE \<or> c = TSS_E_NO_CONNECTION
         \<or> c = TSS_E_CONNECTION_FAILED \<or> c = TSS_E_CONNECTION_BROKEN
      then GNUTLS_E_TPM_SESSION_ERROR
      else if c = TPM_E_AUTHFAIL then GNUTLS_E_TPM_SRK_PASSWORD_ERROR
      else GNUTLS_E_TPM_ERROR)"

definition tss_err :: "32 word \<Rightarrow> world \<Rightarrow> int \<times> world" where
  "tss_err e w = (tss_err_code e, gnutls_debug_log ''TPM error: %s (%x)'' w)"

subsection \<open>Signing delegate\<close>

record tpm_ctx_st =
  tpm_ctx :: handle
  tpm_key :: handle
  tpm_key_policy :: handle
  srk :: handle
  srk_policy :: handle

text \<open>
  \<open>tpm_sign_fn\<close> returns the library code, the signature written to \<open>sig\<close> (on
  success) and the world after its calls. The three exits after the hash object exists
  each pass through \<open>Tspi_Context_CloseObject\<close>.
\<close>

definition tpm_sign_fn ::
  "tss \<Rightarrow> tpm_ctx_st \<Rightarrow> byte list \<Rightarrow> world \<Rightarrow> int \<times> byte list option \<times> world" where
  "tpm_sign_fn chip s data w0 =
     (let w1 = gnutls_debug_log ''TPM sign function called for %u bytes.'' w0;
          (r1, w2) = tss_do chip (Tspi_Context_CreateObject (tpm_ctx s) TSS_OBJECT_TYPE_HASH) w1
      in if tss_result r1 \<noteq> 0
         then (GNUTLS_E_PK_SIGN_FAILED, None,
               gnutls_debug_log ''Failed to create TPM hash object: %s'' w2)
         else
           let hash = out_handle r1;
               (r2, w3) = tss_do chip (Tspi_Hash_SetHashValue hash data) w2
           in if tss_result r2 \<noteq> 0
              then
                let w4 = gnutls_debug_log ''Failed to set value in TPM hash object: %s'' w3;
                    (r3, w5) = tss_do chip (Tspi_Context_CloseObject (tpm_ctx s) hash) w4
                in (GNUTLS_E_PK_SIGN_FAILED, None, w5)
              else
                let (r3, w4) = tss_do chip (Tspi_Hash_Sign hash (tpm_key s)) w3;
                    (r4, w5) = tss_do chip (Tspi_Context_CloseObject (tpm_ctx s) hash) w4
                in if tss_result r3 \<noteq> 0
                   then
                     let w6 = (if tpm_key_policy s \<noteq> 0 \<or> tss_result r3 \<noteq> TPM_E_AUTHFAIL
                               then gnutls_debug_log ''TPM hash signature failed: %s'' w5
                               else w5)
                     in if tss_result r3 = TPM_E_AUTHFAIL
                        then (GNUTLS_E_INSUFFICIENT_CREDENTIALS, None, w6)
                        else (GNUTLS_E_PK_SIGN_FAILED, None, w6)
                   else (0, Some (out_data r3), w5))"

subsection \<open>Session manager\<close>

definition nullpass :: "byte list" where
  "nullpass = replicate 20 0"

definition srk_uuid :: TSS_UUID where
  "srk_uuid = \<lparr>ulTimeLow = 0, usTimeMid = 0, usTimeHigh = 0, bClockSeqHigh = 0,
               bClockSeqLow = 0, rgbNode = [0, 0, 0, 0, 0, 1]\<rparr>"

definition bytes_of :: "string \<Rightarrow> byte list" where
  "bytes_of str = map (\<lambda>c. of_nat (of_char c)) str"

text \<open>The cleanup labels of \<open>tpm_open_session\<close>; each falls through to the next.\<close>

definition out_tspi_ctx :: "tss \<Rightarrow> int \<Rightarrow> tpm_ctx_st \<Rightarrow> world \<Rightarrow> int \<times> tpm_ctx_st \<times> world" where
  "out_tspi_ctx chip ret s w =
     (let (r, w') = tss_do chip (Tspi_Context_Close (tpm_ctx s)) w
      in (ret, s\<lparr>tpm_ctx := 0\<rparr>, w'))"

definition out_srk :: "tss \<Rightarrow> int \<Rightarrow> tpm_ctx_st \<Rightarrow> world \<Rightarrow> int \<times> tpm_ctx_st \<times> world" where
  "out_srk chip ret s w =
     (let (r, w') = tss_do chip (Tspi_Context_CloseObject (tpm_ctx s) (srk s)) w
      in out_tspi_ctx chip ret (s\<lparr>srk := 0\<rparr>) w')"

definition out_srkpol :: "tss \<Rightarrow> int \<Rightarrow> tpm_ctx_st \<Rightarrow> world \<Rightarrow> int \<times> tpm_ctx_st \<times> world" where
  "out_srkpol chip ret s w =
     (let (r, w') = tss_do chip (Tspi_Context_CloseObject (tpm_ctx s) (srk_policy s)) w
      in out_srk chip ret (s\<lparr>srk_policy := 0\<rparr>) w')"

definition tpm_open_session ::
  "tss \<Rightarrow> tpm_ctx_st \<Rightarrow> string option \<Rightarrow> world \<Rightarrow> int \<times> tpm_ctx_st \<times> world" where
  "tpm_open_session chip s srk_password w0 =
     (let (r1, w1) = tss_do chip Tspi_Context_Create w0
      in if tss_result r1 \<noteq> 0
         then (let (ret, w) = tss_err (tss_result r1) w1 in (ret, s, w))
         else
           let s1 = s\<lparr>tpm_ctx := out_handle r1\<rparr>;
               (r2, w2) = tss_do chip (Tspi_Context_Connect (tpm_ctx s1)) w1
           in if tss_result r2 \<noteq> 0
              then (let (ret, w) = tss_err (tss_result r2) w2 in out_tspi_ctx chip ret s1 w)
              else
                let (r3, w3) = tss_do chip (Tspi_Context_LoadKeyByUUID (tpm_ctx s1) srk_uuid) w2
                in if tss_result r3 \<noteq> 0
                   then (let (ret, w) = tss_err (tss_result r3) w3 in out_tspi_ctx chip ret s1 w)
                   else
                     let s2 = s1\<lparr>srk := out_handle r3\<rparr>;
                         (r4, w4) = tss_do chip (Tspi_GetPolicyObject (srk s2)) w3
                     in if tss_result r4 \<noteq> 0
                        then (let (ret, w) = tss_err (tss_result r4) w4 in out_srk chip ret s2 w)
                        else
                          let s3 = s2\<lparr>srk_policy := out_handle r4\<rparr>;
                              (r5, w5) =
                                (case srk_password of
                                   Some pw \<Rightarrow>
                                     tss_do chip (Tspi_Policy_SetSecret (srk_policy s3)
                                                    TSS_SECRET_MODE_PLAIN (bytes_of pw)) w4
                                 | None \<Rightarrow>
                                     tss_do chip (Tspi_Policy_SetSecret (srk_policy s3)
                                                    TSS_SECRET_MODE_SHA1 nullpass) w4)
                          in if tss_result r5 \<noteq> 0
                             then
                               (let w6 = gnutls_debug_log ''Failed to set TPM PIN: %s'' w5;
                                    (ret, w) = tss_err (tss_result r5) w6
                                in out_srkpol chip ret s3 w)
                             else (0, s3, w5))"

definition tpm_close_session :: "tss \<Rightarrow> tpm_ctx_st \<Rightarrow> world \<Rightarrow> tpm_ctx_st \<times> world" where
  "tpm_close_session chip s w0 =
     (let (r1, w1) = tss_do chip (Tspi_Context_CloseObject (tpm_ctx s) (srk_policy s)) w0;
          s1 = s\<lparr>srk_policy := 0\<rparr>;
          (r2, w2) = tss_do chip (Tspi_Context_CloseObject (tpm_ctx s1) (srk s1)) w1;
          s2 = s1\<lparr>srk := 0\<rparr>;
          (r3, w3) = tss_do chip (Tspi_Context_Close (tpm_ctx s2)) w2
      in (s2\<lparr>tpm_ctx := 0\<rparr>, w3))"

subsection \<open>Key generation: size quantization\<close>

text \<open>
  The size flags of the TSS headers, by name. \<open>gnutls_tpm_privkey_generate\<close> chooses
  one of them from the requested \<open>bits\<close> (an \<open>unsigned int\<close>) before it opens a session.
\<close>

datatype tss_key_size =
  TSS_KEY_SIZE_512 | TSS_KEY_SIZE_1024 | TSS_KEY_SIZE_2048
  | TSS_KEY_SIZE_4096 | TSS_KEY_SIZE_8192 | TSS_KEY_SIZE_16384

fun key_size_bits :: "tss_key_size \<Rightarrow> nat" where
  "key_size_bits TSS_KEY_SIZE_512 = 512"
| "key_size_bits TSS_KEY_SIZE_1024 = 1024"
| "key_size_bits TSS_KEY_SIZE_2048 = 2048"
| "key_size_bits TSS_KEY_SIZE_4096 = 4096"
| "key_size_bits TSS_KEY_SIZE_8192 = 8192"
| "key_size_bits TSS_KEY_SIZE_16384 = 16384"

definition generate_key_size :: "32 word \<Rightarrow> tss_key_size" where
  "generate_key_size bits =
     (if bits \<le> 512 then TSS_KEY_SIZE_512
      else if bits \<le> 1024 then TSS_KEY_SIZE_1024
      else if bits \<le> 2048 then TSS_KEY_SIZE_2048
      else if bits \<le> 4096 then TSS_KEY_SIZE_4096
      else if bits \<le> 8192 then TSS_KEY_SIZE_8192
      else TSS_KEY_SIZE_16384)"

definition supported_key_sizes :: "nat list" where
  "supported_key_sizes = [512, 1024, 2048, 4096, 8192, 16384]"

subsection \<open>Locator codec\<close>

text \<open>
  A value of type \<open>string\<close> stands for the characters of a NUL-terminated C string, the
  terminator left out. \<open>strstr\<close> returns the suffix of the haystack that starts at the
  first occurrence of the needle, \<open>None\<close> for a null result.
\<close>

fun strstr :: "string \<Rightarrow> string \<Rightarrow> string option" where
  "strstr [] needle = (if needle = [] then Some [] else None)"
| "strstr (c # cs) needle =
     (if prefix needle (c # cs) then Some (c # cs) else strstr cs needle)"

text \<open>The C-locale character classes of ctype.h.\<close>

definition isalnum :: "char \<Rightarrow> bool" where
  "isalnum c =
     (let n = (of_char c :: nat)
      in (48 \<le> n \<and> n \<le> 57) \<or> (65 \<le> n \<and> n \<le> 90) \<or> (97 \<le> n \<and> n \<le> 122))"

definition isxdigit :: "char \<Rightarrow> bool" where
  "isxdigit c =
     (let n = (of_char c :: nat)
      in (48 \<le> n \<and> n \<le> 57) \<or> (65 \<le> n \<and> n \<le> 70) \<or> (97 \<le> n \<and> n \<le> 102))"

definition hex_val :: "char \<Rightarrow> nat" where
  "hex_val c =
     (let n = (of_char c :: nat)
      in if 48 \<le> n \<and> n \<le> 57 then n - 48
         else if 65 \<le> n \<and> n \<le> 70 then n - 55
         else n - 87)"

fun hex_pairs :: "string \<Rightarrow> byte list" where
  "hex_pairs (a # b # cs) = of_nat (hex_val a * 16 + hex_val b) # hex_pairs cs"
| "hex_pairs cs = []"

text \<open>
  Modelled from the spec: \<open>_gnutls_hex2bin\<close>, the hex decoder of the library's string
  helpers, whose source is not among the files. The specification has the collected
  characters hex-decoded into 16 bytes, the decoding failing with \<open>ParseError\<close> on a
  wrong length or a bad digit, and requires that exactly 16 bytes result. The second
  argument is the capacity of the output buffer, which the decoded bytes must fill.
\<close>

definition gnutls_hex2bin :: "string \<Rightarrow> nat \<Rightarrow> int \<times> byte list" where
  "gnutls_hex2bin hex_data bin_size =
     (if list_all isxdigit hex_data \<and> length hex_data = 2 * bin_size
      then (0, hex_pairs hex_data)
      else (GNUTLS_E_PARSING_ERROR, []))"

text \<open>
  \<open>memcpy\<close> of a byte array into an integer field gives the integer whose object
  representation those bytes are: it depends on the byte order of the host.
\<close>

datatype byte_order = Little_Endian | Big_Endian

definition load_be :: "byte list \<Rightarrow> nat" where
  "load_be bs = foldl (\<lambda>acc b. acc * 256 + unat b) 0 bs"

definition memcpy_to_uint :: "byte_order \<Rightarrow> byte list \<Rightarrow> nat" where
  "memcpy_to_uint bo bs =
     (case bo of Big_Endian \<Rightarrow> load_be bs | Little_Endian \<Rightarrow> load_be (rev bs))"

text \<open>
  The conversion \<open>%.Nx\<close> of printf: the lowercase hexadecimal digits of the value, padded
  on the left with zeros to at least \<open>N\<close> digits.
\<close>

definition hex_digit :: "nat \<Rightarrow> char" where
  "hex_digit d = ''0123456789abcdef'' ! d"

fun hex_of_nat :: "nat \<Rightarrow> string" where
  "hex_of_nat n = (if n = 0 then [] else hex_of_nat (n div 16) @ [hex_digit (n mod 16)])"

declare hex_of_nat.simps [simp del]

definition printf_x :: "nat \<Rightarrow> nat \<Rightarrow> string" where
  "printf_x prec v = (let ds = hex_of_nat v in replicate (prec - length ds) CHR ''0'' @ ds)"

definition UUID_SIZE :: nat where
  "UUID_SIZE = 16"

text \<open>
  \<open>encode_tpmkey_url\<close>: the first argument tells whether \<open>gnutls_malloc\<close> returned a
  block. \<open>snprintf\<close> writes at most \<open>size - 1\<close> characters.
\<close>

definition encode_tpmkey_url :: "bool \<Rightarrow> TSS_UUID \<Rightarrow> int \<times> string option" where
  "encode_tpmkey_url malloc_ok u =
     (let sz = UUID_SIZE * 2 + 4 + 32
      in if \<not> malloc_ok then (GNUTLS_E_MEMORY_ERROR, None)
         else (0, Some (take (sz - 1)
                (''tpmkey:uuid='' @ printf_x 8 (unat (ulTimeLow u)) @ ''-''
                 @ printf_x 4 (unat (usTimeMid u)) @ ''-''
                 @ printf_x 4 (unat (usTimeHigh u)) @ ''-''
                 @ printf_x 2 (unat (bClockSeqHigh u)) @ printf_x 2 (unat (bClockSeqLow u))
                 @ ''-''
                 @ printf_x 2 (unat (rgbNode u ! 0)) @ printf_x 2 (unat (rgbNode u ! 1))
                 @ printf_x 2 (unat (rgbNode u ! 2)) @ printf_x 2 (unat (rgbNode u ! 3))
                 @ printf_x 2 (unat (rgbNode u ! 4)) @ printf_x 2 (unat (rgbNode u ! 5))))))"

record tpmkey_url_st =
  filename :: "string option"
  uuid :: TSS_UUID
  uuid_set :: "32 word"

text \<open>\<open>memset (s, 0, sizeof (*s))\<close>.\<close>

definition tpmkey_url_zero :: tpmkey_url_st where
  "tpmkey_url_zero =
     \<lparr>filename = None,
      uuid = \<lparr>ulTimeLow = 0, usTimeMid = 0, usTimeHigh = 0, bClockSeqHigh = 0,
              bClockSeqLow = 0, rgbNode = replicate 6 0\<rparr>,
      uuid_set = 0\<rparr>"

definition clear_tpmkey_url :: "tpmkey_url_st \<Rightarrow> tpmkey_url_st" where
  "clear_tpmkey_url s = tpmkey_url_zero"

text \<open>
  The allocator and the string-buffer helpers (\<open>_gnutls_buffer_append_data\<close>,
  \<open>_gnutls_buffer_unescape\<close>, \<open>_gnutls_buffer_pop_data\<close>) are not among the sources and
  are parameters: each takes the buffer's content and returns its result code and the
  new content; \<open>buffer_pop_data\<close> returns the bytes it hands out for a requested size.
\<close>

record host_str =
  gnutls_malloc_ok :: "nat \<Rightarrow> bool"
  buffer_append_data :: "string \<Rightarrow> string \<Rightarrow> int \<times> string"
  buffer_unescape :: "string \<Rightarrow> int \<times> string"
  buffer_pop_data :: "string \<Rightarrow> nat \<Rightarrow> string"

text \<open>\<open>unescape_string\<close> returns its result code and what it wrote to \<open>output\<close>.\<close>

definition unescape_string :: "host_str \<Rightarrow> string \<Rightarrow> nat \<Rightarrow> char \<Rightarrow> int \<times> string" where
  "unescape_string h input sz terminator =
     (let len = length (takeWhile (\<lambda>c. c \<noteq> terminator) input);
          (ret1, str1) = buffer_append_data h [] (take len input)
      in if ret1 < 0 then (ret1, [])
         else
           let (ret2, str2) = buffer_unescape h str1
           in if ret2 < 0 then (ret2, [])
              else
                let (ret3, str3) = buffer_append_data h str2 [CHR 0x00]
                in if ret3 < 0 then (ret3, [])
                   else (ret3, buffer_pop_data h str3 sz))"

text \<open>
  The loop of \<open>decode_tpmkey_url\<close> that copies alphanumeric characters into
  \<open>tmp_uuid[33]\<close>: the second argument is \<open>j\<close>, the loop stops at \<open>j = 32\<close>.
\<close>

fun collect_alnum :: "string \<Rightarrow> nat \<Rightarrow> string" where
  "collect_alnum [] j = []"
| "collect_alnum (c # cs) j =
     (if j = 32 then []
      else if isalnum c then c # collect_alnum cs (Suc j)
      else collect_alnum cs j)"

text \<open>
  \<open>decode_tpmkey_url\<close> takes the structure as the caller left it and returns the result
  code with the structure as it leaves it. The hex decoder is a parameter.
\<close>

definition decode_tpmkey_url ::
  "byte_order \<Rightarrow> host_str \<Rightarrow> (string \<Rightarrow> nat \<Rightarrow> int \<times> byte list) \<Rightarrow> string \<Rightarrow> tpmkey_url_st
     \<Rightarrow> int \<times> tpmkey_url_st" where
  "decode_tpmkey_url bo h hex2bin url s =
     (if strstr url ''tpmkey:'' = None then (GNUTLS_E_PARSING_ERROR, s)
      else
        let s0 = tpmkey_url_zero
        in case strstr url ''file='' of
             Some q \<Rightarrow>
               let p = drop 5 q;
                   sz = length p
               in if \<not> gnutls_malloc_ok h sz then (GNUTLS_E_MEMORY_ERROR, s0)
                  else
                    let (ret, output) = unescape_string h p sz CHR '';''
                    in if ret < 0 then (ret, clear_tpmkey_url s0)
                       else (0, s0\<lparr>filename := Some output\<rparr>)
           | None \<Rightarrow>
               (case strstr url ''uuid='' of
                  Some q \<Rightarrow>
                    let p = drop 5 q;
                        tmp_uuid = collect_alnum p 0;
                        (ret, raw_uuid) = hex2bin tmp_uuid 16
                    in if ret < 0 then (ret, clear_tpmkey_url s0)
                       else
                         (0, s0\<lparr>uuid :=
                                  \<lparr>ulTimeLow = of_nat (memcpy_to_uint bo (take 4 raw_uuid)),
                                   usTimeMid = of_nat (memcpy_to_uint bo (take 2 (drop 4 raw_uuid))),
                                   usTimeHigh = of_nat (memcpy_to_uint bo (take 2 (drop 6 raw_uuid))),
                                   bClockSeqHigh = raw_uuid ! 8,
                                   bClockSeqLow = raw_uuid ! 9,
                                   rgbNode = take 6 (drop 10 raw_uuid)\<rparr>,
                                uuid_set := 1\<rparr>)
                | None \<Rightarrow> (GNUTLS_E_PARSING_ERROR, s0)))"

text \<open>A host whose allocations succeed and whose buffer helpers do not fail.\<close>

definition host_str_ok :: host_str where
  "host_str_ok =
     \<lparr>gnutls_malloc_ok = (\<lambda>n. True),
      buffer_append_data = (\<lambda>buf d. (0, buf @ d)),
      buffer_unescape = (\<lambda>buf. (0, buf)),
      buffer_pop_data = (\<lambda>buf n. take n buf)\<rparr>"

subsection \<open>Key import engine\<close>

text \<open>
  The collaborators of the import that are not among the sources are parameters:
  \<^item> \<open>malloc_tpm_ctx\<close>: \<open>gnutls_malloc (sizeof (*s))\<close>, \<open>None\<close> for a null result,
    otherwise the block as the allocator hands it out. The allocator does not clear
    memory, so the fields of the new structure hold whatever the block held;
  \<^item> \<open>pem_base64_decode_alloc\<close>: \<open>gnutls_pem_base64_decode_alloc\<close> for the label
    \<open>TSS KEY BLOB\<close>, result code and decoded bytes;
  \<^item> \<open>x509_decode_octet_string\<close>: \<open>_gnutls_x509_decode_octet_string\<close>, result code and
    the unwrapped blob;
  \<^item> \<open>privkey_import_ext2\<close>: the result code of \<open>gnutls_privkey_import_ext2\<close>;
  \<^item> \<open>hash_data\<close>: the digest computation of the primitive backend inside
    \<open>gnutls_privkey_sign_data\<close>, result code and digest;
  \<^item> \<open>pubkey_import_rsa_raw\<close>: the result code of \<open>gnutls_pubkey_import_rsa_raw\<close> for
    a modulus and an exponent.
\<close>

record host_lib =
  malloc_tpm_ctx :: "tpm_ctx_st option"
  pem_base64_decode_alloc :: "byte list \<Rightarrow> int \<times> byte list"
  x509_decode_octet_string :: "byte list \<Rightarrow> int \<times> byte list"
  privkey_import_ext2 :: int
  hash_data :: "byte list option \<Rightarrow> int \<times> byte list"
  pubkey_import_rsa_raw :: "byte list \<Rightarrow> byte list \<Rightarrow> int"

text \<open>
  Modelled from the spec: \<open>gnutls_privkey_sign_data\<close> of the abstract private-key object
  model, whose source is not among the files. The specification has the digest computed
  by the external primitive backend before the signing delegate is entered, and sign
  operations on the abstract key re-enter this module through the registered callback.
\<close>

definition gnutls_privkey_sign_data ::
  "host_lib \<Rightarrow> tss \<Rightarrow> tpm_ctx_st \<Rightarrow> byte list option \<Rightarrow> world
     \<Rightarrow> int \<times> byte list option \<times> world" where
  "gnutls_privkey_sign_data h chip s data w =
     (let (ret, digest) = hash_data h data
      in if ret < 0 then (ret, None, w) else tpm_sign_fn chip s digest w)"

text \<open>
  A call either returns its result code or does not return because it dereferences a
  null pointer (\<open>strlen\<close> of a null string).
\<close>

datatype outcome = Returned int | Null_Dereference

text \<open>
  The cleanup labels of \<open>import_tpm_key\<close>. \<open>out_blob\<close> frees the decoded blob and falls
  through to \<open>out_session\<close>; \<open>out_ctx\<close> frees the structure, so no delegate state is
  left (\<open>None\<close>).
\<close>

definition import_out_session ::
  "tss \<Rightarrow> int \<Rightarrow> tpm_ctx_st \<Rightarrow> world \<Rightarrow> outcome \<times> tpm_ctx_st option \<times> world" where
  "import_out_session chip ret s w =
     (let (s', w') = tpm_close_session chip s w in (Returned ret, None, w'))"

definition import_out_blob ::
  "tss \<Rightarrow> int \<Rightarrow> tpm_ctx_st \<Rightarrow> world \<Rightarrow> outcome \<times> tpm_ctx_st option \<times> world" where
  "import_out_blob chip ret s w = import_out_session chip ret s w"

definition import_out_key ::
  "tss \<Rightarrow> int \<Rightarrow> tpm_ctx_st \<Rightarrow> world \<Rightarrow> outcome \<times> tpm_ctx_st option \<times> world" where
  "import_out_key chip ret s w =
     (let (r, w') = tss_do chip (Tspi_Context_CloseObject (tpm_ctx s) (tpm_key s)) w
      in import_out_blob chip ret (s\<lparr>tpm_key := 0\<rparr>) w')"

definition import_out_key_policy ::
  "tss \<Rightarrow> int \<Rightarrow> tpm_ctx_st \<Rightarrow> world \<Rightarrow> outcome \<times> tpm_ctx_st option \<times> world" where
  "import_out_key_policy chip ret s w =
     (let (r, w') = tss_do chip (Tspi_Context_CloseObject (tpm_ctx s) (tpm_key_policy s)) w
      in import_out_key chip ret (s\<lparr>tpm_key_policy := 0\<rparr>) w')"

text \<open>
  Lines 255 to 313 of \<open>import_tpm_key\<close>: loading the key from the blob or by UUID within
  the open session. The result is \<open>Inl\<close> with the code and the label to leave by
  (\<open>True\<close> for \<open>out_blob\<close>, \<open>False\<close> for \<open>out_session\<close>), or \<open>Inr\<close> with the structure
  holding the key handle.
\<close>

definition import_tpm_key_load ::
  "host_lib \<Rightarrow> tss \<Rightarrow> byte list option \<Rightarrow> TSS_UUID option \<Rightarrow> string option \<Rightarrow> tpm_ctx_st
     \<Rightarrow> world \<Rightarrow> (int \<times> bool + tpm_ctx_st) \<times> world" where
  "import_tpm_key_load h chip fdata uuidp srk_password s w =
     (case fdata of
        Some fd \<Rightarrow>
          let (ret, asn1) = pem_base64_decode_alloc h fd
          in if ret \<noteq> 0
             then (Inl (ret, False), gnutls_debug_log ''Error decoding TSS key blob: %s'' w)
             else
               let (ret2, blob) = x509_decode_octet_string h asn1
               in if ret2 < 0 then (Inl (ret2, True), w)
                  else
                    let (r, w1) = tss_do chip
                                    (Tspi_Context_LoadKeyByBlob (tpm_ctx s) (srk s) blob) w
                    in if tss_result r \<noteq> 0
                       then
                         let w2 = (if srk_password \<noteq> None
                                   then gnutls_debug_log ''Failed to load TPM key blob: %s'' w1
                                   else w1)
                         in if tss_result r \<noteq> 0
                            then (let (ret3, w3) = tss_err (tss_result r) w2
                                  in (Inl (ret3, True), w3))
                            else (Inr s, w2)
                       else (Inr (s\<lparr>tpm_key := out_handle r\<rparr>), w1)
      | None \<Rightarrow>
          (case uuidp of
             Some u \<Rightarrow>
               let (r, w1) = tss_do chip (Tspi_Context_LoadKeyByUUID (tpm_ctx s) u) w
               in if tss_result r \<noteq> 0
                  then (let (ret, w2) = tss_err (tss_result r) w1 in (Inl (ret, False), w2))
                  else (Inr (s\<lparr>tpm_key := out_handle r\<rparr>), w1)
           | None \<Rightarrow> (Inl (GNUTLS_E_INVALID_REQUEST, False), w)))"

text \<open>
  Lines 328 to 353: the key policy is created and assigned when the field is null.
  \<open>Inl\<close> is the return through the cleanup labels, \<open>Inr\<close> the structure to go on with.
\<close>

definition import_create_key_policy ::
  "tss \<Rightarrow> tpm_ctx_st \<Rightarrow> world
     \<Rightarrow> (outcome \<times> tpm_ctx_st option \<times> world) + (tpm_ctx_st \<times> world)" where
  "import_create_key_policy chip s w =
     (if tpm_key_policy s = 0
      then
        let (r1, w1) = tss_do chip
                         (Tspi_Context_CreateObject (tpm_ctx s) TSS_OBJECT_TYPE_POLICY) w
        in if tss_result r1 \<noteq> 0
           then
             (let w2 = gnutls_debug_log ''Failed to create key policy object: %s'' w1;
                  (ret, w3) = tss_err (tss_result r1) w2
              in Inl (import_out_key chip ret s w3))
           else
             let s1 = s\<lparr>tpm_key_policy := out_handle r1\<rparr>;
                 (r2, w2) = tss_do chip
                              (Tspi_Policy_AssignToObject (tpm_key_policy s1) (tpm_key s1)) w1
             in if tss_result r2 \<noteq> 0
                then
                  (let w3 = gnutls_debug_log ''Failed to assign policy to key: %s'' w2;
                       (ret, w4) = tss_err (tss_result r2) w3
                   in Inl (import_out_key_policy chip ret s1 w4))
                else Inr (s1, w2)
      else Inr (s, w))"

text \<open>
  Lines 326 to 389: what \<open>import_tpm_key\<close> does with the result \<open>ret\<close> of the trial
  sign. On success the structure stays registered with the private key.
\<close>

definition import_tpm_key_auth ::
  "tss \<Rightarrow> tpm_ctx_st \<Rightarrow> string option \<Rightarrow> int \<Rightarrow> world
     \<Rightarrow> outcome \<times> tpm_ctx_st option \<times> world" where
  "import_tpm_key_auth chip s key_password ret w =
     (if ret = GNUTLS_E_INSUFFICIENT_CREDENTIALS
      then
        (case import_create_key_policy chip s w of
           Inl res \<Rightarrow> res
         | Inr (s1, w1) \<Rightarrow>
             (case key_password of
                None \<Rightarrow> (Null_Dereference, Some s1, w1)
              | Some pw \<Rightarrow>
                  let (r, w2) = tss_do chip
                                  (Tspi_Policy_SetSecret (tpm_key_policy s1)
                                     TSS_SECRET_MODE_PLAIN (bytes_of pw)) w1
                  in if tss_result r \<noteq> 0
                     then import_out_key_policy chip GNUTLS_E_TPM_KEY_PASSWORD_ERROR s1
                            (gnutls_debug_log ''Failed to set key PIN: %s'' w2)
                     else (Returned 0, Some s1, w2)))
      else if ret < 0 then import_out_blob chip ret s w
      else (Returned 0, Some s, w))"

definition import_tpm_key ::
  "host_lib \<Rightarrow> tss \<Rightarrow> byte list option \<Rightarrow> TSS_UUID option \<Rightarrow> string option \<Rightarrow> string option
     \<Rightarrow> world \<Rightarrow> outcome \<times> tpm_ctx_st option \<times> world" where
  "import_tpm_key h chip fdata uuidp srk_password key_password w0 =
     (case malloc_tpm_ctx h of
        None \<Rightarrow> (Returned GNUTLS_E_MEMORY_ERROR, None, w0)
      | Some s0 \<Rightarrow>
          let (ret, s1, w1) = tpm_open_session chip s0 srk_password w0
          in if ret < 0 then (Returned ret, None, w1)
             else
               (case import_tpm_key_load h chip fdata uuidp srk_password s1 w1 of
                  (Inl (ret2, blob_label), w2) \<Rightarrow>
                    if blob_label then import_out_blob chip ret2 s1 w2
                    else import_out_session chip ret2 s1 w2
                | (Inr s2, w2) \<Rightarrow>
                    let ret3 = privkey_import_ext2 h
                    in if ret3 < 0 then import_out_session chip ret3 s2 w2
                       else
                         let (ret4, tmp_sig, w3) = gnutls_privkey_sign_data h chip s2 fdata w2
                         in import_tpm_key_auth chip s2 key_password ret4 w3))"

definition gnutls_privkey_import_tpm_raw ::
  "host_lib \<Rightarrow> tss \<Rightarrow> byte list option \<Rightarrow> string option \<Rightarrow> string option \<Rightarrow> world
     \<Rightarrow> outcome \<times> tpm_ctx_st option \<times> world" where
  "gnutls_privkey_import_tpm_raw h chip fdata srk_password key_password w =
     import_tpm_key h chip fdata None srk_password key_password w"

subsection \<open>Public-key import\<close>

text \<open>
  \<open>read_pubkey\<close> returns its result code, the modulus and exponent handed to the
  public-key object, and the parameter size written to \<open>psize\<close>.
\<close>

definition read_pubkey ::
  "host_lib \<Rightarrow> tss \<Rightarrow> handle \<Rightarrow> world \<Rightarrow> int \<times> (byte list \<times> byte list) option \<times> nat \<times> world" where
  "read_pubkey h chip key_ctx w0 =
     (let (r1, w1) = tss_do chip (Tspi_GetAttribData key_ctx TSS_TSPATTRIB_KEYINFO_RSA_MODULUS) w0
      in if tss_result r1 \<noteq> 0
         then (let (ret, w) = tss_err (tss_result r1) w1 in (ret, None, 0, w))
         else
           let m = out_data r1;
               (r2, w2) = tss_do chip
                            (Tspi_GetAttribData key_ctx TSS_TSPATTRIB_KEYINFO_RSA_EXPONENT) w1
           in if tss_result r2 \<noteq> 0
              then
                (let (r3, w3) = tss_do chip (Tspi_Context_FreeMemory key_ctx m) w2;
                     (ret, w) = tss_err (tss_result r2) w3
                 in (ret, None, 0, w))
              else
                let e = out_data r2;
                    ret = pubkey_import_rsa_raw h m e;
                    (r3, w3) = tss_do chip (Tspi_Context_FreeMemory key_ctx m) w2;
                    (r4, w4) = tss_do chip (Tspi_Context_FreeMemory key_ctx e) w3
                in if ret < 0 then (ret, None, 0, w4)
                   else (0, Some (m, e), length e + length m, w4))"

text \<open>
  \<open>import_tpm_pubkey\<close> keeps its \<open>struct tpm_ctx_st\<close> on the stack: the argument \<open>s0\<close> is
  the content of that variable at entry. Both cleanup labels end in
  \<open>tpm_close_session\<close>.
\<close>

definition import_tpm_pubkey ::
  "host_lib \<Rightarrow> tss \<Rightarrow> tpm_ctx_st \<Rightarrow> byte list option \<Rightarrow> TSS_UUID option \<Rightarrow> string option
     \<Rightarrow> world \<Rightarrow> int \<times> (byte list \<times> byte list) option \<times> world" where
  "import_tpm_pubkey h chip s0 fdata uuidp srk_password w0 =
     (let (ret, s1, w1) = tpm_open_session chip s0 srk_password w0
      in if ret < 0 then (ret, None, w1)
         else
           (case fdata of
              Some fd \<Rightarrow>
                let (ret1, asn1) = pem_base64_decode_alloc h fd
                in if ret1 \<noteq> 0
                   then (ret1, None,
                         snd (tpm_close_session chip s1
                                (gnutls_debug_log ''Error decoding TSS key blob: %s'' w1)))
                   else
                     let (ret2, blob) = x509_decode_octet_string h asn1
                     in if ret2 < 0 then (ret2, None, snd (tpm_close_session chip s1 w1))
                        else
                          let (r, w2) = tss_do chip
                                          (Tspi_Context_LoadKeyByBlob (tpm_ctx s1) (srk s1) blob) w1
                          in if tss_result r \<noteq> 0
                             then
                               let w3 = (if srk_password \<noteq> None
                                         then gnutls_debug_log ''Failed to load TPM key blob: %s'' w2
                                         else w2)
                               in if tss_result r \<noteq> 0
                                  then (let (ret3, w4) = tss_err (tss_result r) w3
                                        in (ret3, None, snd (tpm_close_session chip s1 w4)))
                                  else
                                    (let (ret4, pub, psize, w4) = read_pubkey h chip (tpm_key s1) w3
                                     in (if ret4 < 0 then ret4 else 0,
                                         pub, snd (tpm_close_session chip s1 w4)))
                             else
                               (let s2 = s1\<lparr>tpm_key := out_handle r\<rparr>;
                                    (ret4, pub, psize, w4) = read_pubkey h chip (tpm_key s2) w2
                                in (if ret4 < 0 then ret4 else 0,
                                    pub, snd (tpm_close_session chip s2 w4)))
            | None \<Rightarrow>
                (case uuidp of
                   Some u \<Rightarrow>
                     let (r, w2) = tss_do chip (Tspi_Context_LoadKeyByUUID (tpm_ctx s1) u) w1
                     in if tss_result r \<noteq> 0
                        then (let (ret3, w3) = tss_err (tss_result r) w2
                              in (ret3, None, snd (tpm_close_session chip s1 w3)))
                        else
                          (let s2 = s1\<lparr>tpm_key := out_handle r\<rparr>;
                               (ret4, pub, psize, w4) = read_pubkey h chip (tpm_key s2) w2
                           in (if ret4 < 0 then ret4 else 0,
                               pub, snd (tpm_close_session chip s2 w4)))
                 | None \<Rightarrow>
                     (GNUTLS_E_INVALID_REQUEST, None, snd (tpm_close_session chip s1 w1)))))"

subsection \<open>Concrete chips, hosts and inputs\<close>

text \<open>
  A scripted chip: the result code of a call is given by the script, the handle it
  hands out is the position of the call in the history plus one, so that every call
  gets a fresh non-null handle.
\<close>

definition chip_script :: "(tss_call \<Rightarrow> 32 word) \<Rightarrow> tss" where
  "chip_script f tr c = \<lparr>tss_result = f c, out_handle = of_nat (length tr) + 1, out_data = []\<rparr>"

definition all_succeed :: "tss_call \<Rightarrow> 32 word" where
  "all_succeed c = 0"

definition sign_authfail :: "tss_call \<Rightarrow> 32 word" where
  "sign_authfail c = (case c of Tspi_Hash_Sign h k \<Rightarrow> TPM_E_AUTHFAIL | _ \<Rightarrow> 0)"

definition blob_load_fails :: "tss_call \<Rightarrow> 32 word" where
  "blob_load_fails c = (case c of Tspi_Context_LoadKeyByBlob h k b \<Rightarrow> 0x3 | _ \<Rightarrow> 0)"

definition ctx_zero :: tpm_ctx_st where
  "ctx_zero = \<lparr>tpm_ctx = 0, tpm_key = 0, tpm_key_policy = 0, srk = 0, srk_policy = 0\<rparr>"

definition ctx_with_policy :: tpm_ctx_st where
  "ctx_with_policy = \<lparr>tpm_ctx = 1, tpm_key = 4, tpm_key_policy = 5, srk = 2, srk_policy = 3\<rparr>"

definition ctx_stale :: tpm_ctx_st where
  "ctx_stale = \<lparr>tpm_ctx = 0x11, tpm_key = 0x22, tpm_key_policy = 0xdeadbeef, srk = 0x33,
                srk_policy = 0x44\<rparr>"

text \<open>
  A host whose library calls succeed, decoders return their input and digests are 20
  zero bytes; its argument is what the allocator returns for the delegate structure.
\<close>

definition host_with :: "tpm_ctx_st option \<Rightarrow> host_lib" where
  "host_with blk =
     \<lparr>malloc_tpm_ctx = blk,
      pem_base64_decode_alloc = (\<lambda>d. (0, d)),
      x509_decode_octet_string = (\<lambda>d. (0, d)),
      privkey_import_ext2 = 0,
      hash_data = (\<lambda>d. (0, replicate 20 0)),
      pubkey_import_rsa_raw = (\<lambda>m e. 0)\<rparr>"

definition host_ok :: host_lib where
  "host_ok = host_with (Some ctx_zero)"

text \<open>The same host when the allocator hands out a block that was used before.\<close>

definition host_stale :: host_lib where
  "host_stale = host_with (Some ctx_stale)"

definition session_zero_open :: tpm_ctx_st where
  "session_zero_open = \<lparr>tpm_ctx = 1, tpm_key = 0, tpm_key_policy = 0, srk = 3, srk_policy = 4\<rparr>"

definition trial_sign_calls :: "tss_call list" where
  "trial_sign_calls =
     [Tspi_Context_LoadKeyByBlob 1 3 [1, 2, 3],
      Tspi_Context_CreateObject 1 TSS_OBJECT_TYPE_HASH,
      Tspi_Hash_SetHashValue 7 (replicate 20 0),
      Tspi_Hash_Sign 7 6,
      Tspi_Context_CloseObject 1 7]"

definition uuid0 :: TSS_UUID where
  "uuid0 = \<lparr>ulTimeLow = 0x01020304, usTimeMid = 0x0506, usTimeHigh = 0x0708,
            bClockSeqHigh = 0x09, bClockSeqLow = 0x0a,
            rgbNode = [0x0b, 0x0c, 0x0d, 0x0e, 0x0f, 0x10]\<rparr>"

definition uuid0_swapped :: TSS_UUID where
  "uuid0_swapped = \<lparr>ulTimeLow = 0x04030201, usTimeMid = 0x0605, usTimeHigh = 0x0807,
                    bClockSeqHigh = 0x09, bClockSeqLow = 0x0a,
                    rgbNode = [0x0b, 0x0c, 0x0d, 0x0e, 0x0f, 0x10]\<rparr>"

definition url0 :: string where
  "url0 = ''tpmkey:uuid=01020304-0506-0708-090a-0b0c0d0e0f10''"


definition session_open :: tpm_ctx_st where
  "session_open = \<lparr>tpm_ctx = 1, tpm_key = 0x22, tpm_key_policy = 0xdeadbeef, srk = 3, srk_policy = 4\<rparr>"

definition session_open_calls :: "tss_call list" where
  "session_open_calls =
     [Tspi_Context_Create, Tspi_Context_Connect 1, Tspi_Context_LoadKeyByUUID 1 srk_uuid,
      Tspi_GetPolicyObject 3, Tspi_Policy_SetSecret 4 TSS_SECRET_MODE_SHA1 nullpass]"

definition session_closed :: tpm_ctx_st where
  "session_closed = \<lparr>tpm_ctx = 0, tpm_key = 0x22, tpm_key_policy = 0xdeadbeef, srk = 0, srk_policy = 0\<rparr>"

text \<open>
  Fixed-width views used to reason about the codec: \<open>hexn k v\<close> is the value written
  with exactly \<open>k\<close> lowercase hexadecimal digits and \<open>bytes_be k v\<close> its \<open>k\<close> low bytes,
  most significant first. \<open>locator_url\<close> is the locator of a UUID with these digits,
  \<open>locator_hex\<close> its digits without the hyphens and \<open>uuid_text_bytes\<close> the sixteen bytes
  in the order of the text.
\<close>

fun hexn :: "nat \<Rightarrow> nat \<Rightarrow> string" where
  "hexn 0 v = []"
| "hexn (Suc k) v = hexn k (v div 16) @ [hex_digit (v mod 16)]"

fun bytes_be :: "nat \<Rightarrow> nat \<Rightarrow> byte list" where
  "bytes_be 0 v = []"
| "bytes_be (Suc k) v = bytes_be k (v div 256) @ [of_nat (v mod 256)]"

definition locator_body :: "TSS_UUID \<Rightarrow> string" where
  "locator_body u =
     hexn 8 (unat (ulTimeLow u)) @ ''-'' @ hexn 4 (unat (usTimeMid u)) @ ''-''
     @ hexn 4 (unat (usTimeHigh u)) @ ''-''
     @ hexn 2 (unat (bClockSeqHigh u)) @ hexn 2 (unat (bClockSeqLow u)) @ ''-''
     @ concat (map (\<lambda>b. hexn 2 (unat b)) (rgbNode u))"

definition locator_hex :: "TSS_UUID \<Rightarrow> string" where
  "locator_hex u =
     hexn 8 (unat (ulTimeLow u)) @ hexn 4 (unat (usTimeMid u))
     @ hexn 4 (unat (usTimeHigh u))
     @ hexn 2 (unat (bClockSeqHigh u)) @ hexn 2 (unat (bClockSeqLow u))
     @ concat (map (\<lambda>b. hexn 2 (unat b)) (rgbNode u))"

definition uuid_text_bytes :: "TSS_UUID \<Rightarrow> byte list" where
  "uuid_text_bytes u =
     bytes_be 4 (unat (ulTimeLow u)) @ bytes_be 2 (unat (usTimeMid u))
     @ bytes_be 2 (unat (usTimeHigh u)) @ [bClockSeqHigh u, bClockSeqLow u] @ rgbNode u"

definition locator_url :: "TSS_UUID \<Rightarrow> string" where
  "locator_url u = ''tpmkey:uuid='' @ locator_body u"

section \<open>Properties\<close>

lemmas gnutls_error_defs =
  GNUTLS_E_MEMORY_ERROR_def GNUTLS_E_INSUFFICIENT_CREDENTIALS_def GNUTLS_E_PK_SIGN_FAILED_def
  GNUTLS_E_INVALID_REQUEST_def GNUTLS_E_PARSING_ERROR_def GNUTLS_E_TPM_ERROR_def
  GNUTLS_E_TPM_KEY_PASSWORD_ERROR_def GNUTLS_E_TPM_SRK_PASSWORD_ERROR_def
  GNUTLS_E_TPM_SESSION_ERROR_def

lemmas world_defs = tss_do_def gnutls_debug_log_def world0_def

subsection \<open>Signing delegate\<close>

text \<open>
  C1, as stated, fails: with a key policy present (\<open>tpm_key_policy = 5\<close>) and a chip whose
  sign operation answers \<open>TPM_E_AUTHFAIL\<close>, \<open>tpm_sign_fn\<close> returns
  \<open>GNUTLS_E_INSUFFICIENT_CREDENTIALS\<close>, not \<open>GNUTLS_E_PK_SIGN_FAILED\<close>.
\<close>

theorem sign_authfail_with_policy_counterexample:
  "tpm_key_policy ctx_with_policy \<noteq> 0 \<and>
   tss_result (chip_script sign_authfail
                 [Tspi_Context_CreateObject 1 TSS_OBJECT_TYPE_HASH, Tspi_Hash_SetHashValue 1 []]
                 (Tspi_Hash_Sign 1 4)) = TPM_E_AUTHFAIL \<and>
   fst (tpm_sign_fn (chip_script sign_authfail) ctx_with_policy [] world0)
     = GNUTLS_E_INSUFFICIENT_CREDENTIALS \<and>
   fst (tpm_sign_fn (chip_script sign_authfail) ctx_with_policy [] world0)
     \<noteq> GNUTLS_E_PK_SIGN_FAILED"
  by (simp add: tpm_sign_fn_def chip_script_def sign_authfail_def ctx_with_policy_def world_defs
      TPM_E_AUTHFAIL_def Let_def gnutls_error_defs)

text \<open>
  C1, amended: when the hash object was created and filled and the chip's sign operation
  fails with result \<open>e\<close>, the sign call returns insufficient-credentials exactly when \<open>e\<close>
  is the authorization-failure code and the generic sign-failure error otherwise, and this
  for every value \<open>p\<close> of the key-policy field, null or not. The field only decides the
  log: after the entry line, the line \<open>TPM hash signature failed\<close> is logged unless the
  field is null and \<open>e\<close> is the authorization-failure code.
\<close>

theorem sign_failure_code:
  assumes "r1 = chip (calls w) (Tspi_Context_CreateObject (tpm_ctx s) TSS_OBJECT_TYPE_HASH)"
      and "tss_result r1 = 0"
      and "tss_result (chip (calls w @ [Tspi_Context_CreateObject (tpm_ctx s) TSS_OBJECT_TYPE_HASH])
                         (Tspi_Hash_SetHashValue (out_handle r1) data)) = 0"
      and "tss_result (chip (calls w @ [Tspi_Context_CreateObject (tpm_ctx s) TSS_OBJECT_TYPE_HASH,
                                       Tspi_Hash_SetHashValue (out_handle r1) data])
                         (Tspi_Hash_Sign (out_handle r1) (tpm_key s))) = e"
      and "e \<noteq> 0"
  shows "\<forall>p. fst (tpm_sign_fn chip (s\<lparr>tpm_key_policy := p\<rparr>) data w) =
             (if e = TPM_E_AUTHFAIL then GNUTLS_E_INSUFFICIENT_CREDENTIALS
              else GNUTLS_E_PK_SIGN_FAILED) \<and>
             logs (snd (snd (tpm_sign_fn chip (s\<lparr>tpm_key_policy := p\<rparr>) data w))) =
               logs w @ [''TPM sign function called for %u bytes.'']
                 @ (if p \<noteq> 0 \<or> e \<noteq> TPM_E_AUTHFAIL
                    then [''TPM hash signature failed: %s''] else [])"
  using assms
  by (simp add: tpm_sign_fn_def tss_do_def gnutls_debug_log_def Let_def split_def)

theorem sign_failure_code_witness:
  "\<forall>p. fst (tpm_sign_fn (chip_script sign_authfail) (ctx_with_policy\<lparr>tpm_key_policy := p\<rparr>)
              [] world0)
        = GNUTLS_E_INSUFFICIENT_CREDENTIALS \<and>
       logs (snd (snd (tpm_sign_fn (chip_script sign_authfail)
                         (ctx_with_policy\<lparr>tpm_key_policy := p\<rparr>) [] world0)))
        = (if p \<noteq> 0
           then [''TPM sign function called for %u bytes.'', ''TPM hash signature failed: %s'']
           else [''TPM sign function called for %u bytes.''])"
proof -
  let ?chip = "chip_script sign_authfail"
  let ?create = "Tspi_Context_CreateObject (tpm_ctx ctx_with_policy) TSS_OBJECT_TYPE_HASH"
  let ?r1 = "?chip (calls world0) ?create"
  have h2: "tss_result ?r1 = 0"
    by (simp add: chip_script_def sign_authfail_def)
  have h3: "tss_result (?chip (calls world0 @ [?create])
                         (Tspi_Hash_SetHashValue (out_handle ?r1) [])) = 0"
    by (simp add: chip_script_def sign_authfail_def)
  have h4: "tss_result (?chip (calls world0 @ [?create, Tspi_Hash_SetHashValue (out_handle ?r1) []])
                         (Tspi_Hash_Sign (out_handle ?r1) (tpm_key ctx_with_policy)))
              = TPM_E_AUTHFAIL"
    by (simp add: chip_script_def sign_authfail_def)
  have h5: "TPM_E_AUTHFAIL \<noteq> 0"
    by (simp add: TPM_E_AUTHFAIL_def)
  show ?thesis
    using sign_failure_code [OF refl h2 h3 h4 h5] by (simp add: world0_def)
qed

text \<open>
  C3: whenever the chip creates the transient hash object, the calls made by
  \<open>tpm_sign_fn\<close> start with that creation and end with \<open>Tspi_Context_CloseObject\<close> on the
  handle of that object, on the success path and on both failure paths alike.
\<close>

theorem sign_closes_hash:
  assumes "r1 = chip (calls w) (Tspi_Context_CreateObject (tpm_ctx s) TSS_OBJECT_TYPE_HASH)"
      and "tss_result r1 = 0"
  shows "\<exists>mid. calls (snd (snd (tpm_sign_fn chip s data w))) =
           calls w @ [Tspi_Context_CreateObject (tpm_ctx s) TSS_OBJECT_TYPE_HASH] @ mid @
             [Tspi_Context_CloseObject (tpm_ctx s) (out_handle r1)]"
  using assms
  by (simp add: tpm_sign_fn_def tss_do_def gnutls_debug_log_def Let_def split_def)

theorem sign_closes_hash_witness:
  "tss_result (chip_script all_succeed [] (Tspi_Context_CreateObject 1 TSS_OBJECT_TYPE_HASH)) = 0 \<and>
   (\<exists>mid. calls (snd (snd (tpm_sign_fn (chip_script all_succeed) ctx_with_policy [7] world0))) =
           [Tspi_Context_CreateObject 1 TSS_OBJECT_TYPE_HASH] @ mid @
             [Tspi_Context_CloseObject 1 1])"
proof -
  have h: "tss_result (chip_script all_succeed (calls world0)
             (Tspi_Context_CreateObject (tpm_ctx ctx_with_policy) TSS_OBJECT_TYPE_HASH)) = 0"
    by (simp add: chip_script_def all_succeed_def)
  show ?thesis
    using sign_closes_hash [of _ "chip_script all_succeed" world0 ctx_with_policy "[7]", OF refl h]
    by (simp add: chip_script_def all_succeed_def world0_def ctx_with_policy_def)
qed

subsection \<open>Key generation\<close>

text \<open>
  C5: the size chosen by key generation is one of 512, 1024, 2048, 4096, 8192 and 16384;
  for a request of at most 16384 bits it is the least of them that is not below the
  request; a request above 16384 gives 16384; the requests 1, 512, 513, 2048 and 20000
  give 512, 512, 1024, 2048 and 16384.
\<close>

theorem generate_key_size_quantizes:
  "key_size_bits (generate_key_size bits) \<in> set supported_key_sizes \<and>
   (unat bits \<le> 16384 \<longrightarrow>
      unat bits \<le> key_size_bits (generate_key_size bits) \<and>
      (\<forall>k \<in> set supported_key_sizes.
          unat bits \<le> k \<longrightarrow> key_size_bits (generate_key_size bits) \<le> k)) \<and>
   (16384 < unat bits \<longrightarrow> key_size_bits (generate_key_size bits) = 16384) \<and>
   map (\<lambda>b. key_size_bits (generate_key_size b)) [1, 512, 513, 2048, 20000]
     = [512, 512, 1024, 2048, 16384]"
  by (auto simp add: generate_key_size_def supported_key_sizes_def word_le_nat_alt)

theorem generate_key_size_quantizes_witness:
  "unat (513 :: 32 word) \<le> 16384 \<and> key_size_bits (generate_key_size 513) = 1024 \<and>
   16384 < unat (20000 :: 32 word) \<and> key_size_bits (generate_key_size 20000) = 16384"
  using generate_key_size_quantizes [of 513] generate_key_size_quantizes [of 20000]
  by (simp add: supported_key_sizes_def)

subsection \<open>Session manager\<close>

lemma open_session_ctx:
  assumes "tpm_open_session chip s srk_password w = (0, s1, w1)"
  shows "tpm_ctx s1 = out_handle (chip (calls w) Tspi_Context_Create)"
  using assms
  by (auto simp add: tpm_open_session_def tss_do_def tss_err_def Let_def split_def
      out_tspi_ctx_def out_srk_def out_srkpol_def tss_err_code_def gnutls_error_defs
      split: if_splits option.splits)

text \<open>
  C8: after a successful \<open>tpm_open_session\<close>, \<open>tpm_close_session\<close> closes the SRK
  policy, the SRK and the context, in that order, on the context handle the chip handed
  out, and leaves the three fields zero; a second \<open>tpm_close_session\<close> leaves the
  structure as it is, and its three calls name the null handle only.
\<close>

theorem open_close_session:
  assumes "tpm_open_session chip s srk_password w = (0, s1, w1)"
      and "tpm_close_session chip s1 w1 = (s2, w2)"
      and "tpm_close_session chip s2 w2 = (s3, w3)"
  shows "tpm_ctx s1 = out_handle (chip (calls w) Tspi_Context_Create) \<and>
         tpm_ctx s2 = 0 \<and> srk s2 = 0 \<and> srk_policy s2 = 0 \<and>
         calls w2 = calls w1 @ [Tspi_Context_CloseObject (tpm_ctx s1) (srk_policy s1),
                                Tspi_Context_CloseObject (tpm_ctx s1) (srk s1),
                                Tspi_Context_Close (tpm_ctx s1)] \<and>
         s3 = s2 \<and>
         calls w3 = calls w2 @ [Tspi_Context_CloseObject 0 0, Tspi_Context_CloseObject 0 0,
                                Tspi_Context_Close 0]"
proof -
  have "tpm_ctx s1 = out_handle (chip (calls w) Tspi_Context_Create)"
    using assms(1) by (rule open_session_ctx)
  moreover have "tpm_ctx s2 = 0 \<and> srk s2 = 0 \<and> srk_policy s2 = 0 \<and>
         calls w2 = calls w1 @ [Tspi_Context_CloseObject (tpm_ctx s1) (srk_policy s1),
                                Tspi_Context_CloseObject (tpm_ctx s1) (srk s1),
                                Tspi_Context_Close (tpm_ctx s1)]"
    using assms(2) by (auto simp add: tpm_close_session_def tss_do_def Let_def split_def)
  moreover have "s3 = s2 \<and>
         calls w3 = calls w2 @ [Tspi_Context_CloseObject 0 0, Tspi_Context_CloseObject 0 0,
                                Tspi_Context_Close 0]"
    using assms(2,3) by (auto simp add: tpm_close_session_def tss_do_def Let_def split_def)
  ultimately show ?thesis by simp
qed

lemma open_stale:
  "tpm_open_session (chip_script all_succeed) ctx_stale None world0
     = (0, session_open, \<lparr>calls = session_open_calls, logs = []\<rparr>)"
  by (simp add: tpm_open_session_def chip_script_def all_succeed_def ctx_stale_def world_defs
      Let_def session_open_def session_open_calls_def)

theorem open_close_session_witness:
  "tpm_open_session (chip_script all_succeed) ctx_stale None world0
     = (0, session_open, \<lparr>calls = session_open_calls, logs = []\<rparr>) \<and>
   fst (tpm_close_session (chip_script all_succeed) session_open
          \<lparr>calls = session_open_calls, logs = []\<rparr>) = session_closed \<and>
   fst (tpm_close_session (chip_script all_succeed) session_closed
          \<lparr>calls = session_open_calls @ [Tspi_Context_CloseObject 1 4, Tspi_Context_CloseObject 1 3,
                     Tspi_Context_Close 1], logs = []\<rparr>) = session_closed"
proof -
  let ?w1 = "\<lparr>calls = session_open_calls, logs = []\<rparr>"
  let ?w2 = "\<lparr>calls = session_open_calls @ [Tspi_Context_CloseObject 1 4, Tspi_Context_CloseObject 1 3,
                     Tspi_Context_Close 1], logs = []\<rparr>"
  have c1: "tpm_close_session (chip_script all_succeed) session_open ?w1 = (session_closed, ?w2)"
    by (simp add: tpm_close_session_def tss_do_def Let_def session_open_def session_closed_def)
  obtain s3 w3 where c2: "tpm_close_session (chip_script all_succeed) session_closed ?w2 = (s3, w3)"
    by (cases "tpm_close_session (chip_script all_succeed) session_closed ?w2") auto
  show ?thesis
    using open_close_session [OF open_stale c1 c2] open_stale c1 c2 by simp
qed

subsection \<open>Locator codec\<close>

lemma strstr_None_iff: "strstr hay needle = None \<longleftrightarrow> \<not> sublist needle hay"
proof (induction hay)
  case Nil
  then show ?case by (cases needle) auto
next
  case (Cons c cs)
  have "sublist needle (c # cs) \<longleftrightarrow> prefix needle (c # cs) \<or> sublist needle cs"
    by (rule sublist_Cons_right)
  with Cons show ?case by simp
qed

lemma collect_alnum_eq: "j \<le> 32 \<Longrightarrow> collect_alnum p j = take (32 - j) (filter isalnum p)"
proof (induction p arbitrary: j)
  case Nil
  then show ?case by simp
next
  case (Cons c cs)
  show ?case
  proof (cases "j = 32")
    case True
    then show ?thesis by simp
  next
    case False
    with Cons.prems have "Suc j \<le> 32" by simp
    with Cons.IH[of "Suc j"] Cons.IH[of j] Cons.prems False show ?thesis
      by (simp add: take_Cons' Suc_diff_le)
  qed
qed

lemma url0_alnum: "collect_alnum ''01020304-0506-0708-090a-0b0c0d0e0f10'' 0 = ''0102030405060708090a0b0c0d0e0f10''"
  by (simp add: isalnum_def)

lemma url0_hex: "gnutls_hex2bin ''0102030405060708090a0b0c0d0e0f10'' 16 = (0, [1,2,3,4,5,6,7,8,9,10,11,12,13,14,15,16])"
  by (simp add: gnutls_hex2bin_def isxdigit_def hex_val_def)

lemma decode_url0:
  "decode_tpmkey_url bo host_str_ok gnutls_hex2bin url0 s =
     (0, \<lparr>filename = None,
          uuid = (case bo of Little_Endian \<Rightarrow> uuid0_swapped | Big_Endian \<Rightarrow> uuid0),
          uuid_set = 1\<rparr>)"
  by (cases bo)
     (simp_all add: decode_tpmkey_url_def url0_def url0_alnum url0_hex Let_def tpmkey_url_zero_def
        memcpy_to_uint_def load_be_def uuid0_def uuid0_swapped_def
        del: collect_alnum.simps)

lemma encode_uuid0: "encode_tpmkey_url True uuid0 = (0, Some url0)"
  by (simp add: encode_tpmkey_url_def uuid0_def url0_def UUID_SIZE_def printf_x_def
      hex_of_nat.simps hex_digit_def Let_def)

text \<open>
  C2 at a failing input: on a little-endian host the UUID \<open>01020304-0506-0708-090a-\<dots>\<close>
  is encoded from the numeric values of its first three fields and decoded by copying
  the bytes in string order into them, so that decoding the encoded locator succeeds
  with \<open>uuid_set\<close> true and the three fields byte-swapped. On a big-endian host the same
  input comes back unchanged.
\<close>

theorem roundtrip_little_endian_fails:
  "encode_tpmkey_url True uuid0 = (0, Some url0) \<and>
   decode_tpmkey_url Little_Endian host_str_ok gnutls_hex2bin url0 tpmkey_url_zero
     = (0, \<lparr>filename = None, uuid = uuid0_swapped, uuid_set = 1\<rparr>) \<and>
   uuid0_swapped \<noteq> uuid0 \<and>
   decode_tpmkey_url Big_Endian host_str_ok gnutls_hex2bin url0 tpmkey_url_zero
     = (0, \<lparr>filename = None, uuid = uuid0, uuid_set = 1\<rparr>)"
proof -
  have "uuid0_swapped \<noteq> uuid0"
    by (simp add: uuid0_def uuid0_swapped_def)
  then show ?thesis
    by (simp add: encode_uuid0 decode_url0)
qed

text \<open>
  C7: whenever \<open>decode_tpmkey_url\<close> returns 0, exactly one of \<open>filename\<close> non-null and
  \<open>uuid_set\<close> non-zero holds in the structure it leaves, for every host, byte order and
  hex decoder.
\<close>

theorem decode_exactly_one:
  assumes "decode_tpmkey_url bo h hex2bin url s = (0, s')"
  shows "(filename s' \<noteq> None) \<longleftrightarrow> \<not> (uuid_set s' \<noteq> 0)"
  using assms
  by (auto simp add: decode_tpmkey_url_def Let_def split_def tpmkey_url_zero_def clear_tpmkey_url_def
      gnutls_error_defs split: if_splits option.splits)

lemma decode_file:
  "decode_tpmkey_url bo host_str_ok hex2bin ''tpmkey:file=/a/b'' s =
     (0, \<lparr>filename = Some ''/a/b'', uuid = uuid tpmkey_url_zero, uuid_set = 0\<rparr>)"
  by (simp add: decode_tpmkey_url_def unescape_string_def host_str_ok_def Let_def tpmkey_url_zero_def)

theorem decode_exactly_one_witness:
  "decode_tpmkey_url Little_Endian host_str_ok gnutls_hex2bin ''tpmkey:file=/a/b'' tpmkey_url_zero
     = (0, \<lparr>filename = Some ''/a/b'', uuid = uuid tpmkey_url_zero, uuid_set = 0\<rparr>) \<and>
   decode_tpmkey_url Little_Endian host_str_ok gnutls_hex2bin url0 tpmkey_url_zero
     = (0, \<lparr>filename = None, uuid = uuid0_swapped, uuid_set = 1\<rparr>)"
proof -
  have f: "decode_tpmkey_url Little_Endian host_str_ok gnutls_hex2bin ''tpmkey:file=/a/b'' tpmkey_url_zero
     = (0, \<lparr>filename = Some ''/a/b'', uuid = uuid tpmkey_url_zero, uuid_set = 0\<rparr>)"
    by (rule decode_file)
  have u: "decode_tpmkey_url Little_Endian host_str_ok gnutls_hex2bin url0 tpmkey_url_zero
     = (0, \<lparr>filename = None, uuid = uuid0_swapped, uuid_set = 1\<rparr>)"
    by (simp add: decode_url0)
  show ?thesis
    using decode_exactly_one [OF f] decode_exactly_one [OF u] f u by simp
qed







text \<open>
  The codec on every UUID whose node array has its six bytes: the encoder writes the
  numeric values of the fields, and the decoder reads back the bytes of that text in
  order and copies them into the fields in the byte order of the host. On a big-endian
  host the decoded UUID is the encoded one.
\<close>

lemma hex_digit_cases:
  assumes "(d :: nat) < 16"
  shows "d = 0 \<or> d = 1 \<or> d = 2 \<or> d = 3 \<or> d = 4 \<or> d = 5 \<or> d = 6 \<or> d = 7 \<or> d = 8 \<or> d = 9
         \<or> d = 10 \<or> d = 11 \<or> d = 12 \<or> d = 13 \<or> d = 14 \<or> d = 15"
  using assms by arith

lemma hex_digit_props:
  assumes "d < 16"
  shows "hex_val (hex_digit d) = d" "isxdigit (hex_digit d)" "isalnum (hex_digit d)"
        "hex_digit d \<noteq> CHR ''l''"
  using hex_digit_cases [OF assms]
  by (auto simp add: hex_digit_def hex_val_def isxdigit_def isalnum_def)

lemma length_hexn [simp]: "length (hexn k v) = k"
  by (induction k arbitrary: v) auto

lemma hexn_zero: "hexn k 0 = replicate k CHR ''0''"
  by (induction k) (auto simp add: hex_digit_def replicate_append_same)

lemma hex_of_nat_zero [simp]: "hex_of_nat 0 = []"
  by (simp add: hex_of_nat.simps)

lemma hex_of_nat_pos: "0 < v \<Longrightarrow> hex_of_nat v = hex_of_nat (v div 16) @ [hex_digit (v mod 16)]"
  by (subst hex_of_nat.simps) simp

lemma length_hex_of_nat: "v < 16 ^ k \<Longrightarrow> length (hex_of_nat v) \<le> k"
proof (induction k arbitrary: v)
  case 0
  then show ?case by simp
next
  case (Suc k)
  show ?case
  proof (cases "v = 0")
    case True
    then show ?thesis by simp
  next
    case False
    from Suc.prems have "v div 16 < 16 ^ k"
      by (simp add: less_mult_imp_div_less mult.commute)
    from Suc.IH [OF this] False show ?thesis
      by (simp add: hex_of_nat_pos)
  qed
qed

lemma printf_x_hexn: "v < 16 ^ k \<Longrightarrow> printf_x k v = hexn k v"
proof (induction k arbitrary: v)
  case 0
  then show ?case by (simp add: printf_x_def)
next
  case (Suc k)
  show ?case
  proof (cases "v = 0")
    case True
    then show ?thesis
      using hexn_zero [of "Suc k"] by (simp add: printf_x_def)
  next
    case False
    from Suc.prems have d: "v div 16 < 16 ^ k"
      by (simp add: less_mult_imp_div_less mult.commute)
    have l: "length (hex_of_nat (v div 16)) \<le> k"
      using d by (rule length_hex_of_nat)
    have "printf_x (Suc k) v = printf_x k (v div 16) @ [hex_digit (v mod 16)]"
      using False l by (simp add: printf_x_def hex_of_nat_pos Let_def)
    with Suc.IH [OF d] show ?thesis by simp
  qed
qed

lemma hex_pairs_append:
  "even (length xs) \<Longrightarrow> hex_pairs (xs @ ys) = hex_pairs xs @ hex_pairs ys"
  by (induction xs rule: hex_pairs.induct) auto

lemma hexn_two:
  "hexn (Suc (Suc n)) v = hexn n (v div 256) @ [hex_digit (v div 16 mod 16), hex_digit (v mod 16)]"
proof -
  have "v div 16 div 16 = v div (16 * 16)"
    by (rule div_mult2_eq [symmetric])
  then show ?thesis by simp
qed

lemma hex_pairs_hexn: "hex_pairs (hexn (2 * k) v) = bytes_be k v"
proof (induction k arbitrary: v)
  case 0
  then show ?case by simp
next
  case (Suc k)
  let ?hi = "hex_digit (v div 16 mod 16)"
  let ?lo = "hex_digit (v mod 16)"
  have e: "even (length (hexn (2 * k) (v div 256)))" by simp
  have "v mod (16 * 16) = 16 * (v div 16 mod 16) + v mod 16"
    by (rule mod_mult2_eq)
  then have a: "v div 16 mod 16 * 16 + v mod 16 = v mod 256"
    by simp
  have s: "2 * Suc k = Suc (Suc (2 * k))" by simp
  have h: "hexn (2 * Suc k) v = hexn (2 * k) (v div 256) @ [?hi, ?lo]"
    unfolding s by (rule hexn_two)
  have p: "hex_pairs [?hi, ?lo] = [of_nat (v mod 256)]"
    using a by (simp add: hex_digit_props)
  have "hex_pairs (hexn (2 * Suc k) v)
          = hex_pairs (hexn (2 * k) (v div 256)) @ hex_pairs [?hi, ?lo]"
    unfolding h using e by (rule hex_pairs_append)
  also have "\<dots> = bytes_be k (v div 256) @ [of_nat (v mod 256)]"
    unfolding p Suc.IH ..
  finally show ?case by simp
qed

lemma load_be_snoc: "load_be (xs @ [b]) = load_be xs * 256 + unat b"
  by (simp add: load_be_def)

lemma load_be_bytes_be: "load_be (bytes_be k v) = v mod 256 ^ k"
proof (induction k arbitrary: v)
  case 0
  then show ?case by (simp add: load_be_def)
next
  case (Suc k)
  have u: "unat (of_nat (v mod 256) :: byte) = v mod 256"
    by (simp add: unat_of_nat)
  have "v mod (256 * 256 ^ k) = (v div 256 mod 256 ^ k) * 256 + v mod 256"
    by (simp add: mod_mult2_eq)
  with Suc.IH [of "v div 256"] u show ?case
    by (simp add: load_be_snoc)
qed


lemma hexn_chars:
  "c \<in> set (hexn k v) \<Longrightarrow> isalnum c \<and> isxdigit c \<and> c \<noteq> CHR ''l''"
  by (induction k arbitrary: v) (auto simp add: hex_digit_props)

lemma filter_alnum_hexn [simp]: "filter isalnum (hexn k v) = hexn k v"
  by (simp add: hexn_chars)

lemma all_xdigit_hexn [simp]: "list_all isxdigit (hexn k v)"
  by (simp add: list_all_iff hexn_chars)

lemma length_bytes_be [simp]: "length (bytes_be k v) = k"
  by (induction k arbitrary: v) auto

lemma hex_pairs_hexn8: "hex_pairs (hexn 8 v) = bytes_be 4 v"
  using hex_pairs_hexn [of 4 v] by simp

lemma hex_pairs_hexn4: "hex_pairs (hexn 4 v) = bytes_be 2 v"
  using hex_pairs_hexn [of 2 v] by simp

lemma hex_pairs_hexn2: "hex_pairs (hexn 2 (unat (b :: byte))) = [b]"
proof -
  have "unat b < 256"
    using unsigned_less [of b, where ?'a = nat] by simp
  then have "bytes_be 1 (unat b) = [b]"
    by simp
  with hex_pairs_hexn [of 1 "unat b"] show ?thesis by simp
qed

lemma printf_x_u32: "printf_x 8 (unat (w :: 32 word)) = hexn 8 (unat w)"
  using unsigned_less [of w, where ?'a = nat] by (intro printf_x_hexn) simp

lemma printf_x_u16: "printf_x 4 (unat (w :: 16 word)) = hexn 4 (unat w)"
  using unsigned_less [of w, where ?'a = nat] by (intro printf_x_hexn) simp

lemma printf_x_u8: "printf_x 2 (unat (w :: byte)) = hexn 2 (unat w)"
  using unsigned_less [of w, where ?'a = nat] by (intro printf_x_hexn) simp

lemma load_be_u32: "word_of_nat (load_be (bytes_be 4 (unat (w :: 32 word)))) = w"
  using unsigned_less [of w, where ?'a = nat] by (simp add: load_be_bytes_be)

lemma load_be_u16: "word_of_nat (load_be (bytes_be 2 (unat (w :: 16 word)))) = w"
  using unsigned_less [of w, where ?'a = nat] by (simp add: load_be_bytes_be)


lemma length_six:
  assumes "length xs = 6"
  obtains a b c d e f where "xs = [a, b, c, d, e, f]"
  using assms by (auto simp add: numeral_eq_Suc length_Suc_conv)

lemma encode_locator_body:
  assumes "length (rgbNode u) = 6"
  shows "encode_tpmkey_url True u = (0, Some (''tpmkey:uuid='' @ locator_body u))"
proof -
  obtain a b c d e f where n: "rgbNode u = [a, b, c, d, e, f]"
    using assms by (rule length_six)
  show ?thesis
    by (simp add: encode_tpmkey_url_def locator_body_def n UUID_SIZE_def Let_def
        printf_x_u32 printf_x_u16 printf_x_u8)
qed

lemma locator_body_alnum:
  "filter isalnum (locator_body u) = locator_hex u"
proof -
  have d: "\<not> isalnum CHR ''-''"
    by (simp add: isalnum_def)
  have c: "filter isalnum (concat (map (\<lambda>b. hexn 2 (unat b)) xs))
             = concat (map (\<lambda>b. hexn 2 (unat b)) xs)" for xs :: "byte list"
    by (induction xs) simp_all
  show ?thesis
    by (simp add: locator_body_def locator_hex_def d c)
qed

lemma locator_body_no_l: "CHR ''l'' \<notin> set (locator_body u)"
  using hexn_chars [of "CHR ''l''"] by (auto simp add: locator_body_def)

lemma length_locator_hex:
  assumes "length (rgbNode u) = 6"
  shows "length (locator_hex u) = 32"
proof -
  obtain a b c d e f where n: "rgbNode u = [a, b, c, d, e, f]"
    using assms by (rule length_six)
  show ?thesis
    by (simp add: locator_hex_def n)
qed

lemma locator_hex_xdigit: "list_all isxdigit (locator_hex u)"
proof -
  have c: "list_all isxdigit (concat (map (\<lambda>b. hexn 2 (unat b)) xs))" for xs :: "byte list"
    by (induction xs) simp_all
  show ?thesis
    by (simp add: locator_hex_def c)
qed

lemma hex_pairs_nodes:
  "hex_pairs (concat (map (\<lambda>b. hexn 2 (unat b)) xs)) = xs" for xs :: "byte list"
proof (induction xs)
  case Nil
  then show ?case by simp
next
  case (Cons x xs)
  have "hex_pairs (hexn 2 (unat x) @ concat (map (\<lambda>b. hexn 2 (unat b)) xs))
          = hex_pairs (hexn 2 (unat x)) @ hex_pairs (concat (map (\<lambda>b. hexn 2 (unat b)) xs))"
    by (rule hex_pairs_append) simp
  with Cons show ?case
    by (simp add: hex_pairs_hexn2)
qed

lemma hex_pairs_locator_hex: "hex_pairs (locator_hex u) = uuid_text_bytes u"
proof -
  have 1: "hex_pairs (hexn 8 v @ r) = bytes_be 4 v @ hex_pairs r" for v r
    using hex_pairs_append [of "hexn 8 v" r] by (simp add: hex_pairs_hexn8)
  have 2: "hex_pairs (hexn 4 v @ r) = bytes_be 2 v @ hex_pairs r" for v r
    using hex_pairs_append [of "hexn 4 v" r] by (simp add: hex_pairs_hexn4)
  have 3: "hex_pairs (hexn 2 (unat b) @ r) = b # hex_pairs r" for b :: byte and r
    using hex_pairs_append [of "hexn 2 (unat b)" r] by (simp add: hex_pairs_hexn2)
  show ?thesis
    unfolding locator_hex_def uuid_text_bytes_def
    by (simp only: 1 2 3 hex_pairs_nodes append.simps)
qed


lemma strstr_locator_scheme: "strstr (locator_url u) ''tpmkey:'' = Some (locator_url u)"
  by (simp add: locator_url_def)

lemma strstr_locator_file: "strstr (locator_url u) ''file='' = None"
proof -
  have "CHR ''l'' \<notin> set (locator_url u)"
    using locator_body_no_l [of u] by (simp add: locator_url_def)
  moreover have "CHR ''l'' \<in> set ''file=''"
    by simp
  ultimately have "\<not> sublist ''file='' (locator_url u)"
    using set_mono_sublist by blast
  then show ?thesis
    using strstr_None_iff by blast
qed

lemma strstr_locator_uuid:
  "strstr (locator_url u) ''uuid='' = Some (''uuid='' @ locator_body u)"
  by (simp add: locator_url_def)

lemma collect_locator:
  assumes "length (rgbNode u) = 6"
  shows "collect_alnum (locator_body u) 0 = locator_hex u"
  using length_locator_hex [OF assms]
  by (simp add: collect_alnum_eq locator_body_alnum)

lemma hex2bin_locator:
  assumes "length (rgbNode u) = 6"
  shows "gnutls_hex2bin (locator_hex u) 16 = (0, uuid_text_bytes u)"
  using length_locator_hex [OF assms]
  by (simp add: gnutls_hex2bin_def locator_hex_xdigit hex_pairs_locator_hex)

lemma decode_locator:
  assumes "length (rgbNode u) = 6"
  shows "decode_tpmkey_url bo h gnutls_hex2bin (locator_url u) s =
     (0, \<lparr>filename = None,
          uuid = \<lparr>ulTimeLow = of_nat (memcpy_to_uint bo (bytes_be 4 (unat (ulTimeLow u)))),
                  usTimeMid = of_nat (memcpy_to_uint bo (bytes_be 2 (unat (usTimeMid u)))),
                  usTimeHigh = of_nat (memcpy_to_uint bo (bytes_be 2 (unat (usTimeHigh u)))),
                  bClockSeqHigh = bClockSeqHigh u,
                  bClockSeqLow = bClockSeqLow u,
                  rgbNode = rgbNode u\<rparr>,
          uuid_set = 1\<rparr>)"
proof -
  let ?raw = "uuid_text_bytes u"
  have t4: "take 4 ?raw = bytes_be 4 (unat (ulTimeLow u))"
    by (simp add: uuid_text_bytes_def)
  have t2: "take 2 (drop 4 ?raw) = bytes_be 2 (unat (usTimeMid u))"
    by (simp add: uuid_text_bytes_def)
  have t2': "take 2 (drop 6 ?raw) = bytes_be 2 (unat (usTimeHigh u))"
    by (simp add: uuid_text_bytes_def)
  have n8: "?raw ! 8 = bClockSeqHigh u"
    by (simp add: uuid_text_bytes_def nth_append)
  have n9: "?raw ! 9 = bClockSeqLow u"
    by (simp add: uuid_text_bytes_def nth_append)
  have t6: "take 6 (drop 10 ?raw) = rgbNode u"
    using assms by (simp add: uuid_text_bytes_def)
  show ?thesis
    by (simp add: decode_tpmkey_url_def Let_def strstr_locator_scheme strstr_locator_file
          strstr_locator_uuid collect_locator [OF assms] hex2bin_locator [OF assms]
          t4 t2 t2' n8 n9 t6 tpmkey_url_zero_def
          del: strstr.simps collect_alnum.simps)
qed

lemma roundtrip_big_endian:
  assumes "length (rgbNode u) = 6"
  shows "encode_tpmkey_url True u = (0, Some (locator_url u)) \<and>
         decode_tpmkey_url Big_Endian h gnutls_hex2bin (locator_url u) s
           = (0, \<lparr>filename = None, uuid = u, uuid_set = 1\<rparr>)"
proof -
  have "\<lparr>ulTimeLow = ulTimeLow u, usTimeMid = usTimeMid u, usTimeHigh = usTimeHigh u,
         bClockSeqHigh = bClockSeqHigh u, bClockSeqLow = bClockSeqLow u,
         rgbNode = rgbNode u\<rparr> = u"
    by simp
  then have "decode_tpmkey_url Big_Endian h gnutls_hex2bin (locator_url u) s
               = (0, \<lparr>filename = None, uuid = u, uuid_set = 1\<rparr>)"
    by (simp add: decode_locator [OF assms] memcpy_to_uint_def load_be_u32 load_be_u16)
  moreover have "encode_tpmkey_url True u = (0, Some (locator_url u))"
    unfolding locator_url_def using assms by (rule encode_locator_body)
  ultimately show ?thesis
    by simp
qed

subsection \<open>Key import engine\<close>

lemma tss_err_code_neg: "tss_err_code e < 0"
  by (simp add: tss_err_code_def Let_def gnutls_error_defs)

lemma tss_err_code_not_key_password: "tss_err_code e \<noteq> GNUTLS_E_TPM_KEY_PASSWORD_ERROR"
  by (simp add: tss_err_code_def Let_def gnutls_error_defs)

lemma close_session_calls:
  "snd (tpm_close_session chip s w) =
     w\<lparr>calls := calls w @ [Tspi_Context_CloseObject (tpm_ctx s) (srk_policy s),
                            Tspi_Context_CloseObject (tpm_ctx s) (srk s),
                            Tspi_Context_Close (tpm_ctx s)]\<rparr>"
  by (simp add: tpm_close_session_def tss_do_def Let_def split_def)

text \<open>
  C9, amended: when the session is open, the blob is unwrapped and the chip fails to load
  it, the private-key import and the public-key import both return the mapped chip
  error, which is negative, and no key, whether or not an SRK password was supplied; the
  password only decides whether the line \<open>Failed to load TPM key blob\<close> is logged before
  the error mapper's own line.
\<close>

theorem blob_load_failure_is_fatal:
  assumes "malloc_tpm_ctx h = Some s0"
      and "tpm_open_session chip s0 srk_password w0 = (0, s1, w1)"
      and "pem_base64_decode_alloc h fd = (0, asn1)"
      and "x509_decode_octet_string h asn1 = (ret2, blob)"
      and "0 \<le> ret2"
      and "tss_result (chip (calls w1) (Tspi_Context_LoadKeyByBlob (tpm_ctx s1) (srk s1) blob)) = e"
      and "e \<noteq> 0"
  shows "\<exists>w'. import_tpm_key h chip (Some fd) uuidp srk_password key_password w0
                 = (Returned (tss_err_code e), None, w') \<and>
              import_tpm_pubkey h chip s0 (Some fd) uuidp srk_password w0
                 = (tss_err_code e, None, w') \<and>
              tss_err_code e < 0 \<and>
              logs w' = logs w1
                 @ (if srk_password \<noteq> None then [''Failed to load TPM key blob: %s''] else [])
                 @ [''TPM error: %s (%x)'']"
proof -
  let ?w2 = "w1\<lparr>calls := calls w1 @ [Tspi_Context_LoadKeyByBlob (tpm_ctx s1) (srk s1) blob]\<rparr>"
  let ?w3 = "if srk_password \<noteq> None
             then gnutls_debug_log ''Failed to load TPM key blob: %s'' ?w2 else ?w2"
  let ?w4 = "gnutls_debug_log ''TPM error: %s (%x)'' ?w3"
  have load: "import_tpm_key_load h chip (Some fd) uuidp srk_password s1 w1
                = (Inl (tss_err_code e, True), ?w4)"
    using assms(3-7)
    by (simp add: import_tpm_key_load_def tss_do_def tss_err_def Let_def)
  have priv: "import_tpm_key h chip (Some fd) uuidp srk_password key_password w0
                = (Returned (tss_err_code e), None, snd (tpm_close_session chip s1 ?w4))"
    using assms(1,2) load
    by (simp add: import_tpm_key_def import_out_blob_def import_out_session_def split_def)
  have pub: "import_tpm_pubkey h chip s0 (Some fd) uuidp srk_password w0
                = (tss_err_code e, None, snd (tpm_close_session chip s1 ?w4))"
    using assms(2-7)
    by (simp add: import_tpm_pubkey_def tss_do_def tss_err_def Let_def)
  have lg: "logs (snd (tpm_close_session chip s1 ?w4)) = logs w1
                 @ (if srk_password \<noteq> None then [''Failed to load TPM key blob: %s''] else [])
                 @ [''TPM error: %s (%x)'']"
    by (simp add: close_session_calls gnutls_debug_log_def)
  show ?thesis
    using priv pub lg tss_err_code_neg [of e] by blast
qed


lemma open_zero_blob_load_fails:
  "tpm_open_session (chip_script blob_load_fails) ctx_zero (Some ''srk'') world0
     = (0, session_zero_open,
        \<lparr>calls = [Tspi_Context_Create, Tspi_Context_Connect 1,
                  Tspi_Context_LoadKeyByUUID 1 srk_uuid, Tspi_GetPolicyObject 3,
                  Tspi_Policy_SetSecret 4 TSS_SECRET_MODE_PLAIN (bytes_of ''srk'')],
         logs = []\<rparr>)"
  by (simp add: tpm_open_session_def chip_script_def blob_load_fails_def ctx_zero_def world_defs
      Let_def session_zero_open_def)

theorem blob_load_failure_is_fatal_witness:
  "fst (import_tpm_key host_ok (chip_script blob_load_fails) (Some [1, 2, 3]) None (Some ''srk'')
          None world0) = Returned GNUTLS_E_TPM_ERROR \<and>
   fst (import_tpm_pubkey host_ok (chip_script blob_load_fails) ctx_zero (Some [1, 2, 3]) None
          (Some ''srk'') world0) = GNUTLS_E_TPM_ERROR"
proof -
  let ?w1 = "\<lparr>calls = [Tspi_Context_Create, Tspi_Context_Connect 1,
                  Tspi_Context_LoadKeyByUUID 1 srk_uuid, Tspi_GetPolicyObject 3,
                  Tspi_Policy_SetSecret 4 TSS_SECRET_MODE_PLAIN (bytes_of ''srk'')],
         logs = []\<rparr>"
  have 1: "malloc_tpm_ctx host_ok = Some ctx_zero"
    by (simp add: host_ok_def host_with_def)
  have 3: "pem_base64_decode_alloc host_ok [1, 2, 3] = (0, [1, 2, 3])"
    by (simp add: host_ok_def host_with_def)
  have 4: "x509_decode_octet_string host_ok [1, 2, 3] = (0, [1, 2, 3])"
    by (simp add: host_ok_def host_with_def)
  have 6: "tss_result (chip_script blob_load_fails (calls ?w1)
             (Tspi_Context_LoadKeyByBlob (tpm_ctx session_zero_open) (srk session_zero_open)
                [1, 2, 3])) = 3"
    by (simp add: chip_script_def blob_load_fails_def)
  have 7: "(3 :: 32 word) \<noteq> 0"
    by simp
  have c: "tss_err_code 3 = GNUTLS_E_TPM_ERROR"
    by (simp add: tss_err_code_def Trspi_Error_Code_def TSS_E_COMM_FAILURE_def
        TSS_E_NO_CONNECTION_def TSS_E_CONNECTION_FAILED_def TSS_E_CONNECTION_BROKEN_def
        TPM_E_AUTHFAIL_def Let_def)
  show ?thesis
    using blob_load_failure_is_fatal [OF 1 open_zero_blob_load_fails 3 4 order_refl 6 7,
            of None None] c
    by auto
qed

text \<open>
  C9, as stated, fails: without an SRK password and with a chip that fails to load the
  blob, the private-key import does not go on to return the key; it logs the mapped
  error, closes the session and returns \<open>GNUTLS_E_TPM_ERROR\<close>.
\<close>

theorem blob_load_failure_without_password_counterexample:
  "import_tpm_key host_ok (chip_script blob_load_fails) (Some [1, 2, 3]) None None None world0
     = (Returned GNUTLS_E_TPM_ERROR, None,
        \<lparr>calls = [Tspi_Context_Create, Tspi_Context_Connect 1,
                  Tspi_Context_LoadKeyByUUID 1 srk_uuid, Tspi_GetPolicyObject 3,
                  Tspi_Policy_SetSecret 4 TSS_SECRET_MODE_SHA1 nullpass,
                  Tspi_Context_LoadKeyByBlob 1 3 [1, 2, 3],
                  Tspi_Context_CloseObject 1 4, Tspi_Context_CloseObject 1 3,
                  Tspi_Context_Close 1],
         logs = [''TPM error: %s (%x)'']\<rparr>) \<and>
   GNUTLS_E_TPM_ERROR < 0"
proof -
  have o: "tpm_open_session (chip_script blob_load_fails) ctx_zero None world0
     = (0, session_zero_open,
        \<lparr>calls = [Tspi_Context_Create, Tspi_Context_Connect 1,
                  Tspi_Context_LoadKeyByUUID 1 srk_uuid, Tspi_GetPolicyObject 3,
                  Tspi_Policy_SetSecret 4 TSS_SECRET_MODE_SHA1 nullpass],
         logs = []\<rparr>)"
    by (simp add: tpm_open_session_def chip_script_def blob_load_fails_def ctx_zero_def world_defs
        Let_def session_zero_open_def)
  have c: "tss_err_code 3 = GNUTLS_E_TPM_ERROR"
    by (simp add: tss_err_code_def Trspi_Error_Code_def TSS_E_COMM_FAILURE_def
        TSS_E_NO_CONNECTION_def TSS_E_CONNECTION_FAILED_def TSS_E_CONNECTION_BROKEN_def
        TPM_E_AUTHFAIL_def Let_def)
  have l: "import_tpm_key_load host_ok (chip_script blob_load_fails) (Some [1, 2, 3]) None None
             session_zero_open
             \<lparr>calls = [Tspi_Context_Create, Tspi_Context_Connect 1,
                  Tspi_Context_LoadKeyByUUID 1 srk_uuid, Tspi_GetPolicyObject 3,
                  Tspi_Policy_SetSecret 4 TSS_SECRET_MODE_SHA1 nullpass],
               logs = []\<rparr>
           = (Inl (GNUTLS_E_TPM_ERROR, True),
              \<lparr>calls = [Tspi_Context_Create, Tspi_Context_Connect 1,
                  Tspi_Context_LoadKeyByUUID 1 srk_uuid, Tspi_GetPolicyObject 3,
                  Tspi_Policy_SetSecret 4 TSS_SECRET_MODE_SHA1 nullpass,
                  Tspi_Context_LoadKeyByBlob 1 3 [1, 2, 3]],
                logs = [''TPM error: %s (%x)'']\<rparr>)"
    by (simp add: import_tpm_key_load_def host_ok_def host_with_def chip_script_def blob_load_fails_def
        session_zero_open_def tss_do_def tss_err_def gnutls_debug_log_def c Let_def)
  have m: "malloc_tpm_ctx host_ok = Some ctx_zero"
    by (simp add: host_ok_def host_with_def)
  have i: "import_tpm_key host_ok (chip_script blob_load_fails) (Some [1, 2, 3]) None None None
             world0
           = import_out_session (chip_script blob_load_fails) GNUTLS_E_TPM_ERROR session_zero_open
               \<lparr>calls = [Tspi_Context_Create, Tspi_Context_Connect 1,
                  Tspi_Context_LoadKeyByUUID 1 srk_uuid, Tspi_GetPolicyObject 3,
                  Tspi_Policy_SetSecret 4 TSS_SECRET_MODE_SHA1 nullpass,
                  Tspi_Context_LoadKeyByBlob 1 3 [1, 2, 3]],
                logs = [''TPM error: %s (%x)'']\<rparr>"
    by (simp add: import_tpm_key_def m o l import_out_blob_def)
  show ?thesis
    unfolding i
    by (simp add: import_out_session_def tpm_close_session_def tss_do_def session_zero_open_def
        Let_def GNUTLS_E_TPM_ERROR_def)
qed


lemma import_out_fst:
  "fst (import_out_session chip ret s w) = Returned ret"
  "fst (import_out_blob chip ret s w) = Returned ret"
  "fst (import_out_key chip ret s w) = Returned ret"
  "fst (import_out_key_policy chip ret s w) = Returned ret"
  by (simp_all add: import_out_session_def import_out_blob_def import_out_key_def
      import_out_key_policy_def split_def Let_def)

lemma create_key_policy_Inl:
  assumes "import_create_key_policy chip s w = Inl res"
  shows "\<exists>e. fst res = Returned (tss_err_code e)"
  using assms
  by (auto simp add: import_create_key_policy_def tss_err_def split_def Let_def import_out_fst
      split: if_splits)

lemma auth_null_password:
  "fst (import_tpm_key_auth chip s None GNUTLS_E_INSUFFICIENT_CREDENTIALS w)
     \<noteq> Returned GNUTLS_E_TPM_KEY_PASSWORD_ERROR"
proof (cases "import_create_key_policy chip s w")
  case (Inl res)
  then obtain e where "fst res = Returned (tss_err_code e)"
    using create_key_policy_Inl by blast
  with Inl show ?thesis
    by (simp add: import_tpm_key_auth_def tss_err_code_not_key_password)
next
  case (Inr p)
  then show ?thesis
    by (cases p) (simp add: import_tpm_key_auth_def)
qed

lemma auth_with_password:
  "fst (import_tpm_key_auth chip s (Some pw) ret w) \<noteq> Null_Dereference"
proof (cases "import_create_key_policy chip s w")
  case (Inl res)
  then obtain e where "fst res = Returned (tss_err_code e)"
    using create_key_policy_Inl by blast
  with Inl show ?thesis
    by (simp add: import_tpm_key_auth_def import_out_fst)
next
  case (Inr p)
  then show ?thesis
    by (cases p) (simp add: import_tpm_key_auth_def import_out_fst split_def Let_def)
qed

lemma import_tpm_key_trial:
  assumes "malloc_tpm_ctx h = Some s0"
      and "tpm_open_session chip s0 srk_password w0 = (ret, s1, w1)"
      and "0 \<le> ret"
      and "import_tpm_key_load h chip fdata uuidp srk_password s1 w1 = (Inr s2, w2)"
      and "0 \<le> privkey_import_ext2 h"
      and "gnutls_privkey_sign_data h chip s2 fdata w2 = (ret4, tmp_sig, w3)"
  shows "import_tpm_key h chip fdata uuidp srk_password key_password w0
           = import_tpm_key_auth chip s2 key_password ret4 w3"
  using assms by (simp add: import_tpm_key_def Let_def)

text \<open>
  C10: when the import has loaded the key and the trial sign returns
  insufficient-credentials, an import called with a null key password never returns the
  key-password error; once the key policy exists it dereferences the null password
  (\<open>strlen\<close>) instead of returning. With a password given, the same import never
  dereferences a null pointer.
\<close>

theorem import_null_key_password:
  assumes "malloc_tpm_ctx h = Some s0"
      and "tpm_open_session chip s0 srk_password w0 = (ret, s1, w1)"
      and "0 \<le> ret"
      and "import_tpm_key_load h chip fdata uuidp srk_password s1 w1 = (Inr s2, w2)"
      and "0 \<le> privkey_import_ext2 h"
      and "gnutls_privkey_sign_data h chip s2 fdata w2
             = (GNUTLS_E_INSUFFICIENT_CREDENTIALS, tmp_sig, w3)"
  shows "fst (import_tpm_key h chip fdata uuidp srk_password None w0)
           \<noteq> Returned GNUTLS_E_TPM_KEY_PASSWORD_ERROR \<and>
         (\<forall>s3 w4. import_create_key_policy chip s2 w3 = Inr (s3, w4) \<longrightarrow>
            import_tpm_key h chip fdata uuidp srk_password None w0
              = (Null_Dereference, Some s3, w4)) \<and>
         (\<forall>pw. fst (import_tpm_key h chip fdata uuidp srk_password (Some pw) w0)
                  \<noteq> Null_Dereference)"
proof -
  have eq: "import_tpm_key h chip fdata uuidp srk_password kp w0
              = import_tpm_key_auth chip s2 kp GNUTLS_E_INSUFFICIENT_CREDENTIALS w3" for kp
    using assms by (rule import_tpm_key_trial)
  have mid: "import_create_key_policy chip s2 w3 = Inr (s3, w4) \<Longrightarrow>
               import_tpm_key_auth chip s2 None GNUTLS_E_INSUFFICIENT_CREDENTIALS w3
                 = (Null_Dereference, Some s3, w4)" for s3 w4
    by (simp add: import_tpm_key_auth_def)
  show ?thesis
    unfolding eq using auth_null_password auth_with_password mid by blast
qed

lemma authfail_open:
  "tpm_open_session (chip_script sign_authfail) s None world0
     = (0, s\<lparr>tpm_ctx := 1, srk := 3, srk_policy := 4\<rparr>,
        \<lparr>calls = session_open_calls, logs = []\<rparr>)"
  by (simp add: tpm_open_session_def chip_script_def sign_authfail_def world_defs
      Let_def session_open_calls_def)

lemma authfail_load:
  "import_tpm_key_load (host_with blk) (chip_script sign_authfail) (Some [1, 2, 3]) None None
     (s\<lparr>tpm_ctx := 1, srk := 3, srk_policy := 4\<rparr>) \<lparr>calls = session_open_calls, logs = []\<rparr>
     = (Inr (s\<lparr>tpm_ctx := 1, srk := 3, srk_policy := 4, tpm_key := 6\<rparr>),
        \<lparr>calls = session_open_calls @ [Tspi_Context_LoadKeyByBlob 1 3 [1, 2, 3]], logs = []\<rparr>)"
  by (simp add: import_tpm_key_load_def host_with_def chip_script_def sign_authfail_def
      tss_do_def Let_def session_open_calls_def)

lemma authfail_sign:
  "gnutls_privkey_sign_data (host_with blk) (chip_script sign_authfail)
     (s\<lparr>tpm_ctx := 1, srk := 3, srk_policy := 4, tpm_key := 6\<rparr>) (Some [1, 2, 3])
     \<lparr>calls = session_open_calls @ [Tspi_Context_LoadKeyByBlob 1 3 [1, 2, 3]], logs = []\<rparr>
     = (GNUTLS_E_INSUFFICIENT_CREDENTIALS, None,
        \<lparr>calls = session_open_calls @ trial_sign_calls,
         logs = ''TPM sign function called for %u bytes.''
                # (if tpm_key_policy s \<noteq> 0 then [''TPM hash signature failed: %s''] else [])\<rparr>)"
  by (simp add: gnutls_privkey_sign_data_def tpm_sign_fn_def host_with_def chip_script_def
      sign_authfail_def tss_do_def gnutls_debug_log_def Let_def session_open_calls_def
      trial_sign_calls_def TPM_E_AUTHFAIL_def)


lemma authfail_create_policy:
  "import_create_key_policy (chip_script sign_authfail)
     (s\<lparr>tpm_ctx := 1, srk := 3, srk_policy := 4, tpm_key := 6\<rparr>)
     \<lparr>calls = session_open_calls @ trial_sign_calls, logs = lg\<rparr>
     = (if tpm_key_policy s = 0
        then Inr (s\<lparr>tpm_ctx := 1, srk := 3, srk_policy := 4, tpm_key := 6, tpm_key_policy := 11\<rparr>,
                  \<lparr>calls = session_open_calls @ trial_sign_calls
                             @ [Tspi_Context_CreateObject 1 TSS_OBJECT_TYPE_POLICY,
                                Tspi_Policy_AssignToObject 11 6],
                   logs = lg\<rparr>)
        else Inr (s\<lparr>tpm_ctx := 1, srk := 3, srk_policy := 4, tpm_key := 6\<rparr>,
                  \<lparr>calls = session_open_calls @ trial_sign_calls, logs = lg\<rparr>))"
  by (simp add: import_create_key_policy_def chip_script_def sign_authfail_def tss_do_def Let_def
      session_open_calls_def trial_sign_calls_def)

theorem import_null_key_password_witness:
  "import_tpm_key host_ok (chip_script sign_authfail) (Some [1, 2, 3]) None None None world0
     = (Null_Dereference,
        Some \<lparr>tpm_ctx = 1, tpm_key = 6, tpm_key_policy = 11, srk = 3, srk_policy = 4\<rparr>,
        \<lparr>calls = session_open_calls @ trial_sign_calls
                   @ [Tspi_Context_CreateObject 1 TSS_OBJECT_TYPE_POLICY,
                      Tspi_Policy_AssignToObject 11 6],
         logs = [''TPM sign function called for %u bytes.'']\<rparr>)"
proof -
  have m: "malloc_tpm_ctx host_ok = Some ctx_zero"
    by (simp add: host_ok_def host_with_def)
  have p: "0 \<le> privkey_import_ext2 host_ok"
    by (simp add: host_ok_def host_with_def)
  have z: "tpm_key_policy ctx_zero = 0"
    by (simp add: ctx_zero_def)
  note l = authfail_load [of "Some ctx_zero" ctx_zero, folded host_ok_def]
  note sg = authfail_sign [of "Some ctx_zero" ctx_zero, folded host_ok_def]
  note ck = authfail_create_policy [of ctx_zero "[''TPM sign function called for %u bytes.'']"]
  have sg': "gnutls_privkey_sign_data host_ok (chip_script sign_authfail)
     (ctx_zero\<lparr>tpm_ctx := 1, srk := 3, srk_policy := 4, tpm_key := 6\<rparr>) (Some [1, 2, 3])
     \<lparr>calls = session_open_calls @ [Tspi_Context_LoadKeyByBlob 1 3 [1, 2, 3]], logs = []\<rparr>
     = (GNUTLS_E_INSUFFICIENT_CREDENTIALS, None,
        \<lparr>calls = session_open_calls @ trial_sign_calls,
         logs = [''TPM sign function called for %u bytes.'']\<rparr>)"
    using sg z by simp
  have ck': "import_create_key_policy (chip_script sign_authfail)
     (ctx_zero\<lparr>tpm_ctx := 1, srk := 3, srk_policy := 4, tpm_key := 6\<rparr>)
     \<lparr>calls = session_open_calls @ trial_sign_calls,
      logs = [''TPM sign function called for %u bytes.'']\<rparr>
     = Inr (ctx_zero\<lparr>tpm_ctx := 1, srk := 3, srk_policy := 4, tpm_key := 6, tpm_key_policy := 11\<rparr>,
            \<lparr>calls = session_open_calls @ trial_sign_calls
                       @ [Tspi_Context_CreateObject 1 TSS_OBJECT_TYPE_POLICY,
                          Tspi_Policy_AssignToObject 11 6],
             logs = [''TPM sign function called for %u bytes.'']\<rparr>)"
    using ck z by simp
  have "import_tpm_key host_ok (chip_script sign_authfail) (Some [1, 2, 3]) None None None world0
          = (Null_Dereference,
             Some (ctx_zero\<lparr>tpm_ctx := 1, srk := 3, srk_policy := 4, tpm_key := 6, tpm_key_policy := 11\<rparr>),
             \<lparr>calls = session_open_calls @ trial_sign_calls
                       @ [Tspi_Context_CreateObject 1 TSS_OBJECT_TYPE_POLICY,
                          Tspi_Policy_AssignToObject 11 6],
              logs = [''TPM sign function called for %u bytes.'']\<rparr>)"
    using import_null_key_password [OF m authfail_open order_refl l p sg'] ck' by blast
  then show ?thesis
    by (simp add: ctx_zero_def)
qed

lemma import_policy_not_recreated:
  "tpm_key_policy s \<noteq> 0 \<Longrightarrow> import_create_key_policy chip s w = Inr (s, w)"
  by (simp add: import_create_key_policy_def)

text \<open>
  C4 at a failing input: \<open>import_tpm_key\<close> never initialises \<open>tpm_key_policy\<close> of the
  structure it allocates. When the allocator hands out a block whose bytes at that field
  are not zero (\<open>0xdeadbeef\<close>), the field does not start null: the trial sign logs its
  failure as if a policy existed, no policy object is created or assigned, and the key
  password is set on the stale handle. With a zeroed block, the same import creates the
  policy, assigns it to the key and sets the password on it.
\<close>

theorem import_stale_key_policy:
  "malloc_tpm_ctx host_stale = Some ctx_stale \<and>
   tpm_key_policy ctx_stale = 0xdeadbeef \<and>
   import_tpm_key host_stale (chip_script sign_authfail) (Some [1, 2, 3]) None None (Some ''pw'')
     world0
     = (Returned 0,
        Some \<lparr>tpm_ctx = 1, tpm_key = 6, tpm_key_policy = 0xdeadbeef, srk = 3, srk_policy = 4\<rparr>,
        \<lparr>calls = session_open_calls @ trial_sign_calls
                   @ [Tspi_Policy_SetSecret 0xdeadbeef TSS_SECRET_MODE_PLAIN (bytes_of ''pw'')],
         logs = [''TPM sign function called for %u bytes.'',
                 ''TPM hash signature failed: %s'']\<rparr>) \<and>
   import_tpm_key host_ok (chip_script sign_authfail) (Some [1, 2, 3]) None None (Some ''pw'')
     world0
     = (Returned 0,
        Some \<lparr>tpm_ctx = 1, tpm_key = 6, tpm_key_policy = 11, srk = 3, srk_policy = 4\<rparr>,
        \<lparr>calls = session_open_calls @ trial_sign_calls
                   @ [Tspi_Context_CreateObject 1 TSS_OBJECT_TYPE_POLICY,
                      Tspi_Policy_AssignToObject 11 6,
                      Tspi_Policy_SetSecret 11 TSS_SECRET_MODE_PLAIN (bytes_of ''pw'')],
         logs = [''TPM sign function called for %u bytes.'']\<rparr>)"
proof -
  have m: "malloc_tpm_ctx host_stale = Some ctx_stale"
    by (simp add: host_stale_def host_with_def)
  have p: "0 \<le> privkey_import_ext2 host_stale"
    by (simp add: host_stale_def host_with_def)
  have g: "tpm_key_policy ctx_stale = 0xdeadbeef"
    by (simp add: ctx_stale_def)
  note l = authfail_load [of "Some ctx_stale" ctx_stale, folded host_stale_def]
  note sg = authfail_sign [of "Some ctx_stale" ctx_stale, folded host_stale_def]
  have stale: "import_tpm_key host_stale (chip_script sign_authfail) (Some [1, 2, 3]) None None
                 (Some ''pw'') world0
     = (Returned 0,
        Some \<lparr>tpm_ctx = 1, tpm_key = 6, tpm_key_policy = 0xdeadbeef, srk = 3, srk_policy = 4\<rparr>,
        \<lparr>calls = session_open_calls @ trial_sign_calls
                   @ [Tspi_Policy_SetSecret 0xdeadbeef TSS_SECRET_MODE_PLAIN (bytes_of ''pw'')],
         logs = [''TPM sign function called for %u bytes.'',
                 ''TPM hash signature failed: %s'']\<rparr>)"
    unfolding import_tpm_key_trial [OF m authfail_open order_refl l p sg]
    by (simp add: import_tpm_key_auth_def import_create_key_policy_def chip_script_def
        sign_authfail_def tss_do_def Let_def ctx_stale_def session_open_calls_def
        trial_sign_calls_def)
  have m0: "malloc_tpm_ctx host_ok = Some ctx_zero"
    by (simp add: host_ok_def host_with_def)
  have p0: "0 \<le> privkey_import_ext2 host_ok"
    by (simp add: host_ok_def host_with_def)
  have z: "tpm_key_policy ctx_zero = 0"
    by (simp add: ctx_zero_def)
  note l0 = authfail_load [of "Some ctx_zero" ctx_zero, folded host_ok_def]
  note sg0 = authfail_sign [of "Some ctx_zero" ctx_zero, folded host_ok_def]
  have fresh: "import_tpm_key host_ok (chip_script sign_authfail) (Some [1, 2, 3]) None None
                 (Some ''pw'') world0
     = (Returned 0,
        Some \<lparr>tpm_ctx = 1, tpm_key = 6, tpm_key_policy = 11, srk = 3, srk_policy = 4\<rparr>,
        \<lparr>calls = session_open_calls @ trial_sign_calls
                   @ [Tspi_Context_CreateObject 1 TSS_OBJECT_TYPE_POLICY,
                      Tspi_Policy_AssignToObject 11 6,
                      Tspi_Policy_SetSecret 11 TSS_SECRET_MODE_PLAIN (bytes_of ''pw'')],
         logs = [''TPM sign function called for %u bytes.'']\<rparr>)"
    unfolding import_tpm_key_trial [OF m0 authfail_open order_refl l0 p0 sg0]
    by (simp add: import_tpm_key_auth_def import_create_key_policy_def chip_script_def
        sign_authfail_def tss_do_def Let_def ctx_zero_def session_open_calls_def
        trial_sign_calls_def)
  show ?thesis
    using m g stale fresh by simp
qed

end
